theory Spec2Isabelle
  imports Main "HOL-Library.Word"
begin

section \<open>Data model\<close>

text \<open>
  The three values of the \<^verbatim>\<open>action\<close> argument of \<^verbatim>\<open>setAll\<close> and \<^verbatim>\<open>setOne\<close> in the
  mysql package (the string constants "setting", "verify", "rollback"). Both functions are
  private and are called with these constants only.
\<close>

datatype action = set_password | verify_password | rollback_password

text \<open>
  Go \<^verbatim>\<open>error\<close> values. A nil error is \<open>None\<close> of \<open>error option\<close>. Every
  \<^verbatim>\<open>fmt.Errorf\<close> site of the two packages has a constructor of its own; the
  collaborators (Secrets Manager, the secret setter, the database client, the context)
  may return any value of the type.
\<close>

datatype error =
    AwsErr string string
    \<comment> \<open>an \<^verbatim>\<open>awserr.Error\<close> with its \<^verbatim>\<open>Code()\<close> and message\<close>
  | ErrInvalidStep
    \<comment> \<open>"invalid Step value from event"\<close>
  | ErrRotationFailed
    \<comment> \<open>\<^verbatim>\<open>errRotationFailed\<close>: "Password rotation failed, see previous log output"\<close>
  | ErrSameVersionId string
    \<comment> \<open>"new and current secret have the same version ID: %s; expected different values"\<close>
  | ErrAnotherPending string
    \<comment> \<open>"another pending secret exists (version ID %s); another process might be rotating ..."\<close>
  | ErrSecretStringEmpty
    \<comment> \<open>"secret string is nil or empty string; it must be valid JSON like ..."\<close>
  | ErrSecretNullLiteral
    \<comment> \<open>"secret string is 'null' literal; it must be valid JSON like ..."\<close>
  | ErrNullSecret string
    \<comment> \<open>"expected an non null secret for secretId %v but received null"\<close>
  | ErrReplicationTimeout
    \<comment> \<open>"timeout waiting for secret replication StatusTypeInSync = true"\<close>
  | ErrFailedOn action nat
    \<comment> \<open>"%s failed on %d database instances, see previous log output"\<close>
  | ErrReachedEnd action
    \<comment> \<open>"mysql.PasswordSetter.setOne() reached end of function on %s password"\<close>
  | ErrOther string
    \<comment> \<open>any other error value\<close>

type_synonym secret = "string \<rightharpoonup> string"

definition AWSCURRENT :: string where "AWSCURRENT = ''AWSCURRENT''"
definition AWSPENDING :: string where "AWSPENDING = ''AWSPENDING''"

definition ErrCodeResourceNotFoundException :: string where
  "ErrCodeResourceNotFoundException = ''ResourceNotFoundException''"

definition StatusTypeInSync :: string where "StatusTypeInSync = ''InSync''"

definition EVENT_BEGIN_ROTATION :: string where
  "EVENT_BEGIN_ROTATION = ''begin-rotation''"
definition EVENT_BEGIN_PASSWORD_ROTATION :: string where
  "EVENT_BEGIN_PASSWORD_ROTATION = ''begin-password-rotation''"
definition EVENT_END_PASSWORD_ROTATION :: string where
  "EVENT_END_PASSWORD_ROTATION = ''end-password-rotation''"
definition EVENT_BEGIN_PASSWORD_VERIFICATION :: string where
  "EVENT_BEGIN_PASSWORD_VERIFICATION = ''begin-password-verification''"
definition EVENT_END_PASSWORD_VERIFICATION :: string where
  "EVENT_END_PASSWORD_VERIFICATION = ''end-password-verification''"
definition EVENT_NEW_PASSWORD_IS_CURRENT :: string where
  "EVENT_NEW_PASSWORD_IS_CURRENT = ''new-password-is-current''"
definition EVENT_END_ROTATION :: string where
  "EVENT_END_ROTATION = ''end-rotation''"
definition EVENT_BEGIN_PASSWORD_ROLLBACK :: string where
  "EVENT_BEGIN_PASSWORD_ROLLBACK = ''begin-password-rollback''"
definition EVENT_ERROR :: string where
  "EVENT_ERROR = ''error''"

text \<open>The Secrets Manager request and response structures, with the fields the code uses.
  \<^verbatim>\<open>VersionId\<close>, the stage labels, and the \<^verbatim>\<open>Status\<close> and \<^verbatim>\<open>Region\<close> of a
  replication status are read through their pointers without a nil check, so they are plain
  strings here; \<^verbatim>\<open>SecretString\<close>, the whole \<^verbatim>\<open>DescribeSecret\<close> output and each
  replication status are checked for nil by the code and are options.\<close>

record GetSecretValueOutput =
  VersionId :: string
  VersionStages :: "string list"
  SecretString :: "string option"

record PutSecretValueInput =
  put_ClientRequestToken :: string
  put_SecretId :: string
  put_SecretString :: string
  put_VersionStages :: "string list"

record PutSecretValueOutput =
  out_VersionId :: string
  out_VersionStages :: "string list"

record UpdateSecretVersionStageInput =
  upd_SecretId :: string
  RemoveFromVersionId :: "string option"
  MoveToVersionId :: "string option"
  VersionStage :: string

record ReplicationStatusType =
  Region :: string
  Status :: string

record DescribeSecretOutput =
  ReplicationStatus :: "ReplicationStatusType option list"

record Event =
  Name :: string
  Step :: string
  Time :: int
  Error :: "error option"

record Credentials =
  Username :: string
  Hostname :: string
  Password :: string

record NewPassword =
  Current :: Credentials
  New :: Credentials

section \<open>Effects: the world, the clock and the record of calls\<close>

datatype logarg = AStr string | AInt int | AErr error | APut PutSecretValueOutput

text \<open>
  Everything the program does to the outside is appended to a trace: each call of a
  collaborator with its arguments and its answer, each sleep, each line written with the
  \<^verbatim>\<open>log\<close> package (\<^verbatim>\<open>Println\<close> of an error is recorded with the format
  \<^verbatim>\<open>%v\<close>). The output of \<^verbatim>\<open>debug\<close> and \<^verbatim>\<open>debugSecret\<close> is not recorded
  (the package variable \<^verbatim>\<open>Debug\<close> is false unless a test sets it).
\<close>

datatype io =
    SM_GetSecretValue string string "error + GetSecretValueOutput"
  | SM_PutSecretValue PutSecretValueInput "error + PutSecretValueOutput"
  | SM_UpdateSecretVersionStage UpdateSecretVersionStageInput "error option"
  | SM_DescribeSecret string "error + DescribeSecretOutput option"
  | SS_Init "string \<rightharpoonup> string" "error option"
  | SS_Handler "string \<rightharpoonup> string" "secret option \<times> error option"
  | SS_Rotate secret "error option \<times> secret"
  | SS_Credentials secret "string \<times> string"
  | DB_Init "string \<rightharpoonup> string" "error option"
  | DB_SetPassword NewPassword "error option"
  | DB_VerifyPassword NewPassword "error option"
  | DB_Rollback NewPassword "error option"
  | Receive Event
  | Client_SetPassword NewPassword "error option"
  | Client_VerifyPassword NewPassword "error option"
  | Sleep int
  | Log string "logarg list"

text \<open>
  The state outside the program is a value of an arbitrary type \<open>'w\<close>; a collaborator
  is a function that reads and changes it. \<open>clock\<close> is the monotonic clock in
  nanoseconds, the unit of \<^verbatim>\<open>time.Duration\<close>.
\<close>

record 'w sys =
  world :: 'w
  clock :: int
  trace :: "io list"

definition emit :: "io \<Rightarrow> 'w sys \<Rightarrow> 'w sys" where
  "emit x s = s\<lparr>trace := trace s @ [x]\<rparr>"

definition logf :: "string \<Rightarrow> logarg list \<Rightarrow> 'w sys \<Rightarrow> 'w sys" where
  "logf f as s = emit (Log f as) s"

text \<open>A call of a collaborator: the world answers and changes, the call takes
  \<open>lat w\<close> nanoseconds, and the call is recorded with its answer.\<close>

definition ext :: "('w \<Rightarrow> nat) \<Rightarrow> ('w \<Rightarrow> 'a \<times> 'w) \<Rightarrow> ('a \<Rightarrow> io) \<Rightarrow> 'w sys \<Rightarrow> 'a \<times> 'w sys" where
  "ext lat f mk s =
     (case f (world s) of
        (a, w') \<Rightarrow> (a, \<lparr>world = w', clock = clock s + int (lat (world s)), trace = trace s @ [mk a]\<rparr>))"

text \<open>\<^verbatim>\<open>time.Sleep(d)\<close> returns at once when \<open>d \<le> 0\<close>.\<close>

definition sleep :: "int \<Rightarrow> 'w sys \<Rightarrow> 'w sys" where
  "sleep d s = s\<lparr>clock := clock s + max 0 d, trace := trace s @ [Sleep d]\<rparr>"

text \<open>\<^verbatim>\<open>Time.Sub\<close>: the difference of two times, cut to the range of
  \<^verbatim>\<open>time.Duration\<close>, a count of nanoseconds in 64 bits. The cut is written out where
  one of the times is a field that may still hold the zero time (\<^verbatim>\<open>startTime\<close> in
  \<^verbatim>\<open>FinishSecret\<close>, which only \<^verbatim>\<open>SetSecret\<close> sets); the difference of two readings
  of \<^verbatim>\<open>time.Now()\<close> within one call is taken as it is, which is the same value as long
  as the call takes less than the 292 years a \<^verbatim>\<open>time.Duration\<close> holds.\<close>

definition maxDuration :: int where
  "maxDuration = 2 ^ 63 - 1"

definition minDuration :: int where
  "minDuration = - (2 ^ 63)"

definition time_Sub :: "int \<Rightarrow> int \<Rightarrow> int" where
  "time_Sub t u =
     (if maxDuration < t - u then maxDuration
      else if t - u < minDuration then minDuration
      else t - u)"

text \<open>\<^verbatim>\<open>Duration.Milliseconds()\<close>.\<close>

definition Milliseconds :: "int \<Rightarrow> int" where
  "Milliseconds d = (if 0 \<le> d then d div 1000000 else - ((- d) div 1000000))"

section \<open>Package rotate\<close>

text \<open>The collaborators of a \<^verbatim>\<open>Rotator\<close>: the Secrets Manager client \<^verbatim>\<open>sm\<close>, the
  \<^verbatim>\<open>SecretSetter\<close> \<^verbatim>\<open>ss\<close>, the \<^verbatim>\<open>db.PasswordSetter\<close> \<^verbatim>\<open>db\<close>, the
  \<^verbatim>\<open>EventReceiver\<close>, and \<^verbatim>\<open>encoding/json\<close> on \<^verbatim>\<open>map[string]string\<close>
  (\<open>Inr None\<close> is the nil map that the literal \<^verbatim>\<open>null\<close> unmarshals to).\<close>

record 'w env =
  sm_GetSecretValue :: "string \<Rightarrow> string \<Rightarrow> 'w \<Rightarrow> (error + GetSecretValueOutput) \<times> 'w"
  sm_PutSecretValue :: "PutSecretValueInput \<Rightarrow> 'w \<Rightarrow> (error + PutSecretValueOutput) \<times> 'w"
  sm_UpdateSecretVersionStage :: "UpdateSecretVersionStageInput \<Rightarrow> 'w \<Rightarrow> error option \<times> 'w"
  sm_DescribeSecret :: "string \<Rightarrow> 'w \<Rightarrow> (error + DescribeSecretOutput option) \<times> 'w"
  ss_Init :: "(string \<rightharpoonup> string) \<Rightarrow> 'w \<Rightarrow> error option \<times> 'w"
  ss_Handler :: "(string \<rightharpoonup> string) \<Rightarrow> 'w \<Rightarrow> (secret option \<times> error option) \<times> 'w"
  ss_Rotate :: "secret \<Rightarrow> 'w \<Rightarrow> (error option \<times> secret) \<times> 'w"
  ss_Credentials :: "secret \<Rightarrow> 'w \<Rightarrow> (string \<times> string) \<times> 'w"
  db_Init :: "(string \<rightharpoonup> string) \<Rightarrow> 'w \<Rightarrow> error option \<times> 'w"
  db_SetPassword :: "NewPassword \<Rightarrow> 'w \<Rightarrow> error option \<times> 'w"
  db_VerifyPassword :: "NewPassword \<Rightarrow> 'w \<Rightarrow> error option \<times> 'w"
  db_Rollback :: "NewPassword \<Rightarrow> 'w \<Rightarrow> error option \<times> 'w"
  ev_Receive :: "Event \<Rightarrow> 'w \<Rightarrow> 'w"
  json_Unmarshal :: "string \<Rightarrow> error + secret option"
  json_Marshal :: "secret \<Rightarrow> error + string"
  latency :: "'w \<Rightarrow> nat"

text \<open>The fields of \<^verbatim>\<open>Rotator\<close> that are data.\<close>

record Rotator =
  skipDb :: bool
  clientRequestToken :: string
  secretId :: string
  startTime :: int
  replicationWaitDuration :: int

definition receive :: "'w env \<Rightarrow> Event \<Rightarrow> 'w sys \<Rightarrow> 'w sys" where
  "receive env e s = snd (ext (latency env) (\<lambda>w. ((), ev_Receive env e w)) (\<lambda>_. Receive e) s)"

definition InvokedBySecretsManager :: "(string \<rightharpoonup> string) \<Rightarrow> bool" where
  "InvokedBySecretsManager event =
     (event ''ClientRequestToken'' \<noteq> None \<and> event ''SecretId'' \<noteq> None \<and> event ''Step'' \<noteq> None)"

text \<open>Indexing a Go map: the zero value for a missing key.\<close>

definition index :: "(string \<rightharpoonup> string) \<Rightarrow> string \<Rightarrow> string" where
  "index m k = (case m k of None \<Rightarrow> [] | Some v \<Rightarrow> v)"

definition getSecret ::
  "'w env \<Rightarrow> Rotator \<Rightarrow> string \<Rightarrow> 'w sys \<Rightarrow> (error + GetSecretValueOutput \<times> secret) \<times> 'w sys" where
  "getSecret env r stage s =
     (case ext (latency env) (sm_GetSecretValue env (secretId r) stage)
             (SM_GetSecretValue (secretId r) stage) s of
        (Inl err, s1) \<Rightarrow> (Inl err, s1)
      | (Inr sec, s1) \<Rightarrow>
          (case SecretString sec of
             None \<Rightarrow> (Inl ErrSecretStringEmpty, s1)
           | Some str \<Rightarrow>
               if str = [] then (Inl ErrSecretStringEmpty, s1)
               else (case json_Unmarshal env str of
                       Inl err \<Rightarrow> (Inl err, s1)
                     | Inr None \<Rightarrow> (Inl ErrSecretNullLiteral, s1)
                     | Inr (Some v) \<Rightarrow> (Inr (sec, v), s1))))"

text \<open>The loop over the stages of the current secret, with its \<^verbatim>\<open>break\<close>.\<close>

fun currentHasPending :: "string list \<Rightarrow> bool" where
  "currentHasPending [] = False"
| "currentHasPending (label # labels) =
     (if label = AWSPENDING then True else currentHasPending labels)"

text \<open>\<^verbatim>\<open>err.(awserr.Error)\<close> with the code of a missing resource.\<close>

fun isResourceNotFound :: "error \<Rightarrow> bool" where
  "isResourceNotFound (AwsErr code msg) = (code = ErrCodeResourceNotFoundException)"
| "isResourceNotFound _ = False"

text \<open>The second half of \<^verbatim>\<open>CreateSecret\<close>, from "rotating current secret": copy the
  current values, let the secret setter rotate the copy, marshal it and put it as the
  pending version under this run's token.\<close>

definition rotateCurrent ::
  "'w env \<Rightarrow> Rotator \<Rightarrow> secret \<Rightarrow> 'w sys \<Rightarrow> error option \<times> 'w sys" where
  "rotateCurrent env r curVals s =
     (case ext (latency env) (ss_Rotate env curVals) (SS_Rotate curVals) s of
        ((Some err, newVals), s1) \<Rightarrow> (Some err, s1)
      | ((None, newVals), s1) \<Rightarrow>
          (case json_Marshal env newVals of
             Inl err \<Rightarrow> (Some err, s1)
           | Inr bytes \<Rightarrow>
               (let input = \<lparr>put_ClientRequestToken = clientRequestToken r,
                             put_SecretId = secretId r,
                             put_SecretString = bytes,
                             put_VersionStages = [AWSPENDING]\<rparr>
                in case ext (latency env) (sm_PutSecretValue env input) (SM_PutSecretValue input) s1 of
                     (Inl err, s2) \<Rightarrow> (Some err, s2)
                   | (Inr output, s2) \<Rightarrow>
                       (None, logf ''new pending secret metadata: %+v'' [APut output] s2))))"

text \<open>The state in which \<^verbatim>\<open>CreateSecret\<close> fetches the current secret: after its first
  log line and the begin-rotation event.\<close>

definition CreateSecret_begin :: "'w env \<Rightarrow> 'w sys \<Rightarrow> 'w sys" where
  "CreateSecret_begin env s =
     (let s0 = logf ''CreateSecret call'' [] s
      in receive env \<lparr>Name = EVENT_BEGIN_ROTATION, Step = ''createSecret'',
                       Time = clock s0, Error = None\<rparr> s0)"

definition CreateSecret_body :: "'w env \<Rightarrow> Rotator \<Rightarrow> 'w sys \<Rightarrow> error option \<times> 'w sys" where
  "CreateSecret_body env r s =
     (case getSecret env r AWSCURRENT (CreateSecret_begin env s) of
        (Inl err, s1) \<Rightarrow> (Some err, s1)
      | (Inr (curSec, curVals), s1) \<Rightarrow>
          if clientRequestToken r = VersionId curSec
          then (Some (ErrSameVersionId (clientRequestToken r)), s1)
          else if \<not> currentHasPending (VersionStages curSec) then
            (case getSecret env r AWSPENDING s1 of
               (Inl err, s2) \<Rightarrow>
                 if isResourceNotFound err then rotateCurrent env r curVals s2
                 else (Some err, s2)
             | (Inr (penSec, penVals), s2) \<Rightarrow>
                 if VersionId penSec = clientRequestToken r then (None, s2)
                 else (Some (ErrAnotherPending (VersionId penSec)), s2))
          else rotateCurrent env r curVals s1)"

text \<open>The deferred function of every step logs the duration at each return.\<close>

definition deferred_return :: "string \<Rightarrow> int \<Rightarrow> 'a \<times> 'w sys \<Rightarrow> 'a \<times> 'w sys" where
  "deferred_return f t0 res =
     (case res of (a, s) \<Rightarrow> (a, logf f [AInt (Milliseconds (clock s - t0))] s))"

definition CreateSecret :: "'w env \<Rightarrow> Rotator \<Rightarrow> 'w sys \<Rightarrow> error option \<times> 'w sys" where
  "CreateSecret env r s =
     deferred_return ''CreateSecret return: %dms'' (clock s) (CreateSecret_body env r s)"

text \<open>The credential pair of \<^verbatim>\<open>SetSecret\<close> and \<^verbatim>\<open>TestSecret\<close> (the two functions
  run the same lines): the pending secret and its credentials, then the current secret and
  its credentials, combined in a \<^verbatim>\<open>db.NewPassword\<close> whose hostnames are empty.\<close>

definition fetchCreds :: "'w env \<Rightarrow> Rotator \<Rightarrow> 'w sys \<Rightarrow> (error + NewPassword) \<times> 'w sys" where
  "fetchCreds env r s =
     (case getSecret env r AWSPENDING s of
        (Inl err, s1) \<Rightarrow> (Inl err, s1)
      | (Inr (newSec, newVals), s1) \<Rightarrow>
          (case ext (latency env) (ss_Credentials env newVals) (SS_Credentials newVals) s1 of
             ((newUsername, newPassword), s2) \<Rightarrow>
               (case getSecret env r AWSCURRENT s2 of
                  (Inl err, s3) \<Rightarrow> (Inl err, s3)
                | (Inr (curSec, curVals), s3) \<Rightarrow>
                    (case ext (latency env) (ss_Credentials env curVals) (SS_Credentials curVals) s3 of
                       ((curUsername, curPassword), s4) \<Rightarrow>
                         (Inr \<lparr>Current = \<lparr>Username = curUsername, Hostname = [], Password = curPassword\<rparr>,
                               New = \<lparr>Username = newUsername, Hostname = [], Password = newPassword\<rparr>\<rparr>,
                          s4)))))"

definition removePending :: "Rotator \<Rightarrow> GetSecretValueOutput \<Rightarrow> UpdateSecretVersionStageInput" where
  "removePending r newSecret =
     \<lparr>upd_SecretId = secretId r, RemoveFromVersionId = Some (VersionId newSecret),
      MoveToVersionId = None, VersionStage = AWSPENDING\<rparr>"

definition rollback ::
  "'w env \<Rightarrow> Rotator \<Rightarrow> NewPassword \<Rightarrow> string \<Rightarrow> 'w sys \<Rightarrow> error option \<times> 'w sys" where
  "rollback env r creds rotationStep s =
     (case ext (latency env) (db_Rollback env creds) (DB_Rollback creds) s of
        (Some err, s1) \<Rightarrow> (Some ErrRotationFailed, logf ''ERROR: Rollback failed: %s'' [AErr err] s1)
      | (None, s1) \<Rightarrow>
          (case getSecret env r AWSPENDING s1 of
             (Inl err, s2) \<Rightarrow> (Some err, s2)
           | (Inr (newSecret, newVals), s2) \<Rightarrow>
               (case ext (latency env) (sm_UpdateSecretVersionStage env (removePending r newSecret))
                       (SM_UpdateSecretVersionStage (removePending r newSecret)) s2 of
                  (Some err, s3) \<Rightarrow>
                    (Some ErrRotationFailed,
                     logf ''ERROR: failed to remove pending secret: %s'' [AErr err] s3)
                | (None, s3) \<Rightarrow>
                    (Some ErrRotationFailed,
                     logf ''%s failed but rollback was successful'' [AStr rotationStep] s3))))"

definition SetSecret_body :: "'w env \<Rightarrow> Rotator \<Rightarrow> 'w sys \<Rightarrow> (error option \<times> Rotator) \<times> 'w sys" where
  "SetSecret_body env r s =
     (if skipDb r
      then ((None, r), logf ''SkipDatabase is enabled, not rotating password on database'' [] s)
      else
        (case fetchCreds env r s of
           (Inl err, s1) \<Rightarrow> ((Some err, r), s1)
         | (Inr creds, s1) \<Rightarrow>
             (let r1 = r\<lparr>startTime := clock s1\<rparr>;
                  s2 = receive env \<lparr>Name = EVENT_BEGIN_PASSWORD_ROTATION, Step = ''setSecret'',
                                    Time = startTime r1, Error = None\<rparr> s1
              in case ext (latency env) (db_SetPassword env creds) (DB_SetPassword creds) s2 of
                   (Some err, s3) \<Rightarrow>
                     (let s4 = logf ''ERROR: SetPassword failed, rollback: %s'' [AErr err] s3;
                          s5 = receive env \<lparr>Name = EVENT_BEGIN_PASSWORD_ROLLBACK, Step = ''setSecret'',
                                            Time = clock s4, Error = None\<rparr> s4
                      in case rollback env r1 creds ''SetSecret'' s5 of
                           (res, s6) \<Rightarrow> ((res, r1), s6))
                 | (None, s3) \<Rightarrow>
                     ((None, r1),
                      receive env \<lparr>Name = EVENT_END_PASSWORD_ROTATION, Step = ''setSecret'',
                                   Time = startTime r1, Error = None\<rparr> s3))))"

definition SetSecret :: "'w env \<Rightarrow> Rotator \<Rightarrow> 'w sys \<Rightarrow> (error option \<times> Rotator) \<times> 'w sys" where
  "SetSecret env r s =
     deferred_return ''SetSecret return: %dms'' (clock s)
       (SetSecret_body env r (logf ''SetSecret call'' [] s))"

definition TestSecret_body :: "'w env \<Rightarrow> Rotator \<Rightarrow> 'w sys \<Rightarrow> error option \<times> 'w sys" where
  "TestSecret_body env r s =
     (if skipDb r
      then (None, logf ''SkipDatabase is enabled, not verifying password on database'' [] s)
      else
        (case fetchCreds env r s of
           (Inl err, s1) \<Rightarrow> (Some err, s1)
         | (Inr creds, s1) \<Rightarrow>
             (let s2 = receive env \<lparr>Name = EVENT_BEGIN_PASSWORD_VERIFICATION, Step = ''testSecret'',
                                    Time = clock s1, Error = None\<rparr> s1
              in case ext (latency env) (db_VerifyPassword env creds) (DB_VerifyPassword creds) s2 of
                   (Some err, s3) \<Rightarrow>
                     (let s4 = logf ''ERROR: VerifyPassword failed, rollback: %s'' [AErr err] s3;
                          s5 = receive env \<lparr>Name = EVENT_BEGIN_PASSWORD_ROLLBACK, Step = ''testSecret'',
                                            Time = clock s4, Error = None\<rparr> s4
                      in rollback env r creds ''TestSecret'' s5)
                 | (None, s3) \<Rightarrow>
                     (None,
                      receive env \<lparr>Name = EVENT_END_PASSWORD_VERIFICATION, Step = ''testSecret'',
                                   Time = clock s3, Error = None\<rparr> s3))))"

definition TestSecret :: "'w env \<Rightarrow> Rotator \<Rightarrow> 'w sys \<Rightarrow> error option \<times> 'w sys" where
  "TestSecret env r s =
     deferred_return ''TestSecret return: %dms'' (clock s)
       (TestSecret_body env r (logf ''TestSecret call'' [] s))"

definition DEFAULT_REPLICATION_WAIT_DURATION :: int where
  "DEFAULT_REPLICATION_WAIT_DURATION = 10 * 1000000000"

definition pollInterval :: int where
  "pollInterval = 500 * 1000000"

text \<open>The inner loop of \<^verbatim>\<open>checkSecretReplicationStatus\<close> over the replication statuses
  of one answer: a nil status is skipped, a status other than in-sync is logged and clears
  \<^verbatim>\<open>replicationSyncComplete\<close>.\<close>

fun scanReplicationStatus ::
  "ReplicationStatusType option list \<Rightarrow> bool \<Rightarrow> 'w sys \<Rightarrow> bool \<times> 'w sys" where
  "scanReplicationStatus [] complete s = (complete, s)"
| "scanReplicationStatus (None # rest) complete s = scanReplicationStatus rest complete s"
| "scanReplicationStatus (Some status # rest) complete s =
     (if Status status \<noteq> StatusTypeInSync
      then scanReplicationStatus rest False
             (logf ''replication status still in (%v) in region (%v) expecting (%v)''
                [AStr (Status status), AStr (Region status), AStr StatusTypeInSync] s)
      else scanReplicationStatus rest complete s)"

text \<open>The outer loop: while less than \<open>waitDuration\<close> has passed since \<open>start\<close>, describe
  the secret; leave on an error, on a nil answer and when every status is in sync; else sleep
  500ms and look again.\<close>

function pollReplication ::
  "'w env \<Rightarrow> string \<Rightarrow> int \<Rightarrow> int \<Rightarrow> 'w sys \<Rightarrow> error option \<times> 'w sys" where
  "pollReplication env sid start waitDuration s =
     (if clock s - start < waitDuration then
        (case ext (latency env) (sm_DescribeSecret env sid) (SM_DescribeSecret sid) s of
           (Inl err, s1) \<Rightarrow> (Some err, s1)
         | (Inr None, s1) \<Rightarrow> (Some (ErrNullSecret sid), s1)
         | (Inr (Some secret), s1) \<Rightarrow>
             (case scanReplicationStatus (ReplicationStatus secret) True s1 of
                (True, s2) \<Rightarrow> (None, logf ''secret replication sync completed successfully'' [] s2)
              | (False, s2) \<Rightarrow> pollReplication env sid start waitDuration (sleep pollInterval s2)))
      else (Some ErrReplicationTimeout, s))"
  by pat_completeness auto
termination
proof (relation "measure (\<lambda>(env, sid, start, waitDuration, s). nat (start + waitDuration - clock s))",
       goal_cases)
  case 1
  show ?case by simp
next
  case (2 env sid start waitDuration s x s1 y secret z s2)
  have scan: "clock (snd (scanReplicationStatus xs b t)) = clock t"
    for xs b and t :: "'a sys"
    by (induction xs b t rule: scanReplicationStatus.induct) (simp_all add: logf_def emit_def)
  have "clock s1 = clock s + int (latency env (world s))"
    using 2(2) by (auto simp: ext_def split: prod.splits)
  moreover have "clock s2 = clock s1"
    using scan [of "ReplicationStatus secret" True s1] 2(5) by (metis snd_conv)
  ultimately show ?case
    using 2(1) by (simp add: sleep_def pollInterval_def)
qed

text \<open>\<^verbatim>\<open>waitDuration\<close> of \<^verbatim>\<open>checkSecretReplicationStatus\<close>: the configured duration when
  it is positive, else the default.\<close>

definition waitDuration :: "Rotator \<Rightarrow> int" where
  "waitDuration r =
     (if replicationWaitDuration r > 0 then replicationWaitDuration r
      else DEFAULT_REPLICATION_WAIT_DURATION)"

definition checkSecretReplicationStatus :: "'w env \<Rightarrow> Rotator \<Rightarrow> 'w sys \<Rightarrow> error option \<times> 'w sys" where
  "checkSecretReplicationStatus env r s =
     (let s0 = logf ''checking secret replication status'' [] s
      in pollReplication env (secretId r) (clock s0) (waitDuration r) s0)"

definition moveCurrent ::
  "Rotator \<Rightarrow> GetSecretValueOutput \<Rightarrow> GetSecretValueOutput \<Rightarrow> UpdateSecretVersionStageInput" where
  "moveCurrent r curSecret newSecret =
     \<lparr>upd_SecretId = secretId r, RemoveFromVersionId = Some (VersionId curSecret),
      MoveToVersionId = Some (VersionId newSecret), VersionStage = AWSCURRENT\<rparr>"

definition FinishSecret_body :: "'w env \<Rightarrow> Rotator \<Rightarrow> 'w sys \<Rightarrow> error option \<times> 'w sys" where
  "FinishSecret_body env r s =
     (case getSecret env r AWSCURRENT s of
        (Inl err, s1) \<Rightarrow> (Some err, s1)
      | (Inr (curSecret, curVals), s1) \<Rightarrow>
          (case getSecret env r AWSPENDING s1 of
             (Inl err, s2) \<Rightarrow> (Some err, s2)
           | (Inr (newSecret, newVals), s2) \<Rightarrow>
               (case ext (latency env) (sm_UpdateSecretVersionStage env (moveCurrent r curSecret newSecret))
                       (SM_UpdateSecretVersionStage (moveCurrent r curSecret newSecret)) s2 of
                  (Some err, s3) \<Rightarrow> (Some err, s3)
                | (None, s3) \<Rightarrow>
                    (let now = clock s3;
                         s4 = receive env \<lparr>Name = EVENT_NEW_PASSWORD_IS_CURRENT, Step = ''finishSecret'',
                                           Time = now, Error = None\<rparr> s3;
                         s5 = logf ''password downtime: %dms'' [AInt (Milliseconds (time_Sub now (startTime r)))] s4
                     in case checkSecretReplicationStatus env r s5 of
                          (Some err, s6) \<Rightarrow> (Some err, s6)
                        | (None, s6) \<Rightarrow>
                            (case ext (latency env) (sm_UpdateSecretVersionStage env (removePending r newSecret))
                                    (SM_UpdateSecretVersionStage (removePending r newSecret)) s6 of
                               (res, s7) \<Rightarrow>
                                 (let s8 = (case res of Some err \<Rightarrow> logf ''%v'' [AErr err] s7
                                                      | None \<Rightarrow> s7)
                                  in (None,
                                      receive env \<lparr>Name = EVENT_END_ROTATION, Step = ''finishSecret'',
                                                   Time = clock s8, Error = None\<rparr> s8)))))))"

definition FinishSecret :: "'w env \<Rightarrow> Rotator \<Rightarrow> 'w sys \<Rightarrow> error option \<times> 'w sys" where
  "FinishSecret env r s =
     deferred_return ''FinishSecret return: %dms'' (clock s)
       (FinishSecret_body env r (logf ''FinishSecret call'' [] s))"

text \<open>The end of \<^verbatim>\<open>Handler\<close> after a step has run: an error is sent to the event receiver
  and returned with a nil map.\<close>

definition Handler_return ::
  "'w env \<Rightarrow> string \<Rightarrow> error option \<Rightarrow> Rotator \<Rightarrow> 'w sys
    \<Rightarrow> (secret option \<times> error option) \<times> Rotator \<times> 'w sys" where
  "Handler_return env step err r s =
     (case err of
        None \<Rightarrow> ((None, None), r, s)
      | Some e \<Rightarrow>
          ((None, Some e), r,
           receive env \<lparr>Name = EVENT_ERROR, Step = step, Time = clock s, Error = Some e\<rparr> s))"

definition Handler ::
  "'w env \<Rightarrow> (string \<rightharpoonup> string) \<Rightarrow> Rotator \<Rightarrow> 'w sys
    \<Rightarrow> (secret option \<times> error option) \<times> Rotator \<times> 'w sys" where
  "Handler env event r s =
     (if \<not> InvokedBySecretsManager event
      then (case ext (latency env) (ss_Handler env event) (SS_Handler event) s of
              (res, s1) \<Rightarrow> (res, r, s1))
      else
        (case ext (latency env) (ss_Init env event) (SS_Init event) s of
           (Some err, s1) \<Rightarrow> ((None, Some err), r, s1)
         | (None, s1) \<Rightarrow>
             (case ext (latency env) (db_Init env event) (DB_Init event) s1 of
                (Some err, s2) \<Rightarrow> ((None, Some err), r, s2)
              | (None, s2) \<Rightarrow>
                  (let r1 = r\<lparr>clientRequestToken := index event ''ClientRequestToken'',
                              secretId := index event ''SecretId''\<rparr>;
                       step = index event ''Step''
                   in if step = ''createSecret'' then
                        (case CreateSecret env r1 s2 of (err, s3) \<Rightarrow> Handler_return env step err r1 s3)
                      else if step = ''setSecret'' then
                        (case SetSecret env r1 s2 of ((err, r2), s3) \<Rightarrow> Handler_return env step err r2 s3)
                      else if step = ''testSecret'' then
                        (case TestSecret env r1 s2 of (err, s3) \<Rightarrow> Handler_return env step err r1 s3)
                      else if step = ''finishSecret'' then
                        (case FinishSecret env r1 s2 of (err, s3) \<Rightarrow> Handler_return env step err r1 s3)
                      else ((None, Some ErrInvalidStep), r1, s2)))))"

section \<open>Package mysql\<close>

text \<open>\<^verbatim>\<open>uint\<close> is 64 bits wide on the platforms the Lambda runs on.\<close>

record Config =
  Parallel :: "64 word"
  Retry :: "64 word"
  RetryWait :: int

text \<open>\<^verbatim>\<open>dbInstance\<close>; the field \<^verbatim>\<open>set\<close> is \<open>set'\<close> here.\<close>

record dbInstance =
  hostname :: string
  set' :: bool
  verified :: bool
  rolledBack :: bool
  setError :: "error option"
  verifyError :: "error option"
  rollbackError :: "error option"

text \<open>\<^verbatim>\<open>PasswordSetter\<close>: \<open>maxParallel\<close> is the number of tokens in the buffered channel
  of that name.\<close>

record PasswordSetter =
  cfg :: Config
  initDone :: bool
  tries :: "64 word"
  maxParallel :: nat
  dbs :: "dbInstance list"

text \<open>The collaborators of a \<^verbatim>\<open>PasswordSetter\<close>: the \<^verbatim>\<open>PasswordClient\<close>
  \<^verbatim>\<open>cfg.DbClient\<close>, and the choice that a \<^verbatim>\<open>select\<close> makes when both of its
  channels are ready (\<open>select_done i\<close>: at target \<open>i\<close> the cancellation is taken).
  A client that panics is not modelled.\<close>

record 'w dbenv =
  DbClient_SetPassword :: "NewPassword \<Rightarrow> 'w \<Rightarrow> error option \<times> 'w"
  DbClient_VerifyPassword :: "NewPassword \<Rightarrow> 'w \<Rightarrow> error option \<times> 'w"
  client_latency :: "'w \<Rightarrow> nat"
  select_done :: "nat \<Rightarrow> bool"

text \<open>A \<^verbatim>\<open>context.Context\<close>: the time at which its \<^verbatim>\<open>Done\<close> channel closes, if it
  ever does, and the error \<^verbatim>\<open>Err()\<close> returns from then on.\<close>

record Context =
  done_at :: "int option"
  ctx_err :: error

definition ctx_Done :: "Context \<Rightarrow> int \<Rightarrow> bool" where
  "ctx_Done ctx now = (case done_at ctx of None \<Rightarrow> False | Some t \<Rightarrow> t \<le> now)"

fun action_string :: "action \<Rightarrow> string" where
  "action_string set_password = ''setting''"
| "action_string verify_password = ''verify''"
| "action_string rollback_password = ''rollback''"

definition NewPasswordSetter :: "Config \<Rightarrow> PasswordSetter" where
  "NewPasswordSetter c =
     (let c1 = (if Parallel c = 0 then c\<lparr>Parallel := 1\<rparr> else c)
      in \<lparr>cfg = c1, initDone = False, tries = 1 + Retry c1,
          maxParallel = unat (Parallel c1), dbs = []\<rparr>)"

definition clientCall ::
  "'w dbenv \<Rightarrow> action \<Rightarrow> NewPassword \<Rightarrow> 'w sys \<Rightarrow> error option \<times> 'w sys" where
  "clientCall env act creds s =
     (if act = verify_password
      then ext (client_latency env) (DbClient_VerifyPassword env creds) (Client_VerifyPassword creds) s
      else ext (client_latency env) (DbClient_SetPassword env creds) (Client_SetPassword creds) s)"

text \<open>Between two tries of \<^verbatim>\<open>setOne\<close>: the log line of the failed try, and the
  sleep of \<^verbatim>\<open>RetryWait\<close>.\<close>

definition retryWait ::
  "PasswordSetter \<Rightarrow> NewPassword \<Rightarrow> action \<Rightarrow> 64 word \<Rightarrow> error \<Rightarrow> 'w sys \<Rightarrow> 'w sys" where
  "retryWait m creds act tryNo err s =
     sleep (RetryWait (cfg m))
       (logf ''%s: error %s password try %d of %d, retry in %s: %s''
          [AStr (Hostname (Current creds)), AStr (action_string act),
           AInt (uint tryNo), AInt (uint (tries m)), AInt (RetryWait (cfg m)), AErr err] s)"

text \<open>The loop of \<^verbatim>\<open>setOne\<close> from \<open>tryNo\<close> on, and the statement after the loop.\<close>

function setOne_loop ::
  "'w dbenv \<Rightarrow> Context \<Rightarrow> PasswordSetter \<Rightarrow> NewPassword \<Rightarrow> action \<Rightarrow> 64 word \<Rightarrow> 'w sys
     \<Rightarrow> error option \<times> 'w sys" where
  "setOne_loop env ctx m creds act tryNo s =
     (if tryNo \<le> tries m then
        (case clientCall env act creds s of
           (None, s1) \<Rightarrow> (None, s1)
         | (Some err, s1) \<Rightarrow>
             if tryNo = tries m then (Some err, s1)
             else if ctx_Done ctx (clock s1) then
               (Some err,
                logf ''%s: context cancelled after %s password, not retrying (%d tries remained)''
                  [AStr (Hostname (Current creds)), AStr (action_string act),
                   AInt (uint (tries m - tryNo))] s1)
             else
               (let s2 = retryWait m creds act tryNo err s1
                in if ctx_Done ctx (clock s2) then
                     (Some (ctx_err ctx),
                      logf ''%s: context cancelled after %s password retry wait, not retrying (%d tries remained)''
                        [AStr (Hostname (Current creds)), AStr (action_string act),
                         AInt (uint (tries m - tryNo))] s2)
                   else setOne_loop env ctx m creds act (tryNo + 1) s2))
      else (Some (ErrReachedEnd act), s))"
  by pat_completeness auto
termination
  by (relation "measure (\<lambda>(env, ctx, m, creds, act, tryNo, s). unat (tries m) - unat tryNo)")
     (simp, unat_arith)

definition setOne ::
  "'w dbenv \<Rightarrow> Context \<Rightarrow> PasswordSetter \<Rightarrow> NewPassword \<Rightarrow> action \<Rightarrow> 'w sys
     \<Rightarrow> error option \<times> 'w sys" where
  "setOne env ctx m creds act s = setOne_loop env ctx m creds act 1 s"

text \<open>The goroutine of \<^verbatim>\<open>setAll\<close> for target \<open>dbNo\<close>: it writes this target's hostname
  into its copy of the credentials, runs \<^verbatim>\<open>setOne\<close> and records the outcome in the slot
  of the action.\<close>

definition stamp :: "string \<Rightarrow> NewPassword \<Rightarrow> NewPassword" where
  "stamp h creds = \<lparr>Current = (Current creds)\<lparr>Hostname := h\<rparr>, New = (New creds)\<lparr>Hostname := h\<rparr>\<rparr>"

fun record_error :: "action \<Rightarrow> error \<Rightarrow> dbInstance \<Rightarrow> dbInstance" where
  "record_error set_password err d = d\<lparr>setError := Some err\<rparr>"
| "record_error verify_password err d = d\<lparr>verifyError := Some err\<rparr>"
| "record_error rollback_password err d = d\<lparr>rollbackError := Some err\<rparr>"

fun record_success :: "action \<Rightarrow> dbInstance \<Rightarrow> dbInstance" where
  "record_success set_password d = d\<lparr>set' := True\<rparr>"
| "record_success verify_password d = d\<lparr>verified := True\<rparr>"
| "record_success rollback_password d = d\<lparr>rolledBack := True\<rparr>"

definition worker ::
  "'w dbenv \<Rightarrow> Context \<Rightarrow> PasswordSetter \<Rightarrow> NewPassword \<Rightarrow> action \<Rightarrow> nat \<Rightarrow> dbInstance list \<Rightarrow> 'w sys
     \<Rightarrow> dbInstance list \<times> 'w sys" where
  "worker env ctx m creds act dbNo ds s =
     (case setOne env ctx m (stamp (hostname (ds ! dbNo)) creds) act s of
        (Some err, s1) \<Rightarrow>
          (ds[dbNo := record_error act err (ds ! dbNo)],
           logf ''ERROR: %s: %s password failed: %s''
             [AStr (hostname (ds ! dbNo)), AStr (action_string act), AErr err] s1)
      | (None, s1) \<Rightarrow>
          (ds[dbNo := record_success act (ds ! dbNo)],
           logf ''%s: success %s password''
             [AStr (hostname (ds ! dbNo)), AStr (action_string act)] s1))"

text \<open>
  The loop of \<^verbatim>\<open>setAll\<close> over the indices of \<^verbatim>\<open>m.dbs\<close>, in one schedule of its
  goroutines: the goroutine of a target runs when the loop waits at the \<^verbatim>\<open>select\<close> of the
  next target, and the goroutine of the last target that is started runs when the loop waits
  in \<^verbatim>\<open>wg.Wait()\<close>, so after the log line "waiting for" that the loop writes as soon as
  it has started it. With \<^verbatim>\<open>Parallel\<close> 1 the loop cannot pass the \<^verbatim>\<open>select\<close> before
  the goroutine in flight has returned its slot; with a larger \<^verbatim>\<open>Parallel\<close> the calls of
  several goroutines can also interleave, and this is one of the possible orders (the count
  of the goroutines in flight is treated over all interleavings in the next subsection). The
  slot is back when the \<^verbatim>\<open>select\<close> is decided. When the context is done by then,
  \<open>select_done\<close> tells which branch is taken: the code takes the cancellation when the
  context was done before the slot came back, and either branch when both are ready, and the
  model leaves the choice open in both cases. The first component of the result tells whether
  the loop left through the cancellation.
\<close>

definition select_cancelled :: "'w dbenv \<Rightarrow> Context \<Rightarrow> nat \<Rightarrow> 'w sys \<Rightarrow> bool" where
  "select_cancelled env ctx i s = (ctx_Done ctx (clock s) \<and> select_done env i)"

definition waiting :: "action \<Rightarrow> dbInstance list \<Rightarrow> 'w sys \<Rightarrow> 'w sys" where
  "waiting act ds s =
     logf ''waiting for %s password on %d RDS instances...''
       [AStr (action_string act), AInt (int (length ds))] s"

fun setAll_loop ::
  "'w dbenv \<Rightarrow> Context \<Rightarrow> PasswordSetter \<Rightarrow> NewPassword \<Rightarrow> action \<Rightarrow> nat list \<Rightarrow> dbInstance list
     \<Rightarrow> 'w sys \<Rightarrow> bool \<times> dbInstance list \<times> 'w sys" where
  "setAll_loop env ctx m creds act [] ds s = (False, ds, waiting act ds s)"
| "setAll_loop env ctx m creds act (i # rest) ds s =
     (if select_cancelled env ctx i s then (True, ds, s)
      else if act = rollback_password \<and> \<not> set' (ds ! i) then
        setAll_loop env ctx m creds act rest ds
          (logf ''%s: new password was not set, skip rollback'' [AStr (hostname (ds ! i))] s)
      else if rest = [] then
        (case worker env ctx m creds act i ds (waiting act ds s) of
           (ds1, s1) \<Rightarrow> (False, ds1, s1))
      else (case worker env ctx m creds act i ds s of
              (ds1, s1) \<Rightarrow> setAll_loop env ctx m creds act rest ds1 s1))"

fun slot_error :: "action \<Rightarrow> dbInstance \<Rightarrow> error option" where
  "slot_error set_password d = setError d"
| "slot_error verify_password d = verifyError d"
| "slot_error rollback_password d = rollbackError d"

definition errCount :: "action \<Rightarrow> dbInstance list \<Rightarrow> nat" where
  "errCount act ds = length (filter (\<lambda>d. slot_error act d \<noteq> None) ds)"

definition setAll ::
  "'w dbenv \<Rightarrow> Context \<Rightarrow> PasswordSetter \<Rightarrow> NewPassword \<Rightarrow> action \<Rightarrow> 'w sys
     \<Rightarrow> (error option \<times> PasswordSetter) \<times> 'w sys" where
  "setAll env ctx m creds act s =
     (let s0 = logf ''%s password on %d RDS instances, %d in parallel...''
                 [AStr (action_string act), AInt (int (length (dbs m))), AInt (uint (Parallel (cfg m)))] s
      in case setAll_loop env ctx m creds act [0..<length (dbs m)] (dbs m) s0 of
           (True, ds, s1) \<Rightarrow> ((Some (ctx_err ctx), m\<lparr>dbs := ds\<rparr>), s1)
         | (False, ds, s1) \<Rightarrow>
             ((if errCount act ds > 0 then Some (ErrFailedOn act (errCount act ds)) else None,
               m\<lparr>dbs := ds\<rparr>), s1))"

text \<open>The loop at the head of \<^verbatim>\<open>SetPassword\<close>: every slot becomes a fresh
  \<^verbatim>\<open>dbInstance\<close> with the hostname only.\<close>

definition resetInstance :: "dbInstance \<Rightarrow> dbInstance" where
  "resetInstance d =
     \<lparr>hostname = hostname d, set' = False, verified = False, rolledBack = False,
      setError = None, verifyError = None, rollbackError = None\<rparr>"

definition SetPassword ::
  "'w dbenv \<Rightarrow> Context \<Rightarrow> PasswordSetter \<Rightarrow> NewPassword \<Rightarrow> 'w sys
     \<Rightarrow> (error option \<times> PasswordSetter) \<times> 'w sys" where
  "SetPassword env ctx m creds s =
     deferred_return ''SetPassword return: %dms'' (clock s)
       (setAll env ctx (m\<lparr>dbs := map resetInstance (dbs m)\<rparr>) creds set_password
          (logf ''SetPassword call'' [] s))"

text \<open>\<^verbatim>\<open>swapCreds\<close> of \<^verbatim>\<open>Rollback\<close>.\<close>

definition swapCreds :: "NewPassword \<Rightarrow> NewPassword" where
  "swapCreds creds = \<lparr>Current = New creds, New = Current creds\<rparr>"

definition Rollback ::
  "'w dbenv \<Rightarrow> Context \<Rightarrow> PasswordSetter \<Rightarrow> NewPassword \<Rightarrow> 'w sys
     \<Rightarrow> (error option \<times> PasswordSetter) \<times> 'w sys" where
  "Rollback env ctx m creds s =
     deferred_return ''Rollback return: %dms'' (clock s)
       (setAll env ctx m (swapCreds creds) rollback_password (logf ''Rollback call'' [] s))"

definition VerifyPassword ::
  "'w dbenv \<Rightarrow> Context \<Rightarrow> PasswordSetter \<Rightarrow> NewPassword \<Rightarrow> 'w sys
     \<Rightarrow> (error option \<times> PasswordSetter) \<times> 'w sys" where
  "VerifyPassword env ctx m creds s =
     deferred_return ''VerifyPassword return: %dms'' (clock s)
       (setAll env ctx m creds verify_password (logf ''VerifyPassword call'' [] s))"

subsection \<open>The slots of the parallel semaphore\<close>

text \<open>
  How \<^verbatim>\<open>setAll\<close> and its goroutines use the channel \<^verbatim>\<open>maxParallel\<close>, as a transition
  system over all interleavings. \<open>slots\<close> is the number of tokens in the channel,
  \<open>held\<close> tells that the loop has received a token and not yet passed it on, \<open>pos\<close> is
  the loop index, \<open>running\<close> the targets whose goroutine has started and has not yet run
  its deferred function, \<open>left\<close> tells that the loop was left through the cancellation.
\<close>

record fan =
  slots :: nat
  held :: bool
  pos :: nat
  running :: "nat set"
  left :: bool

definition fan_start :: "PasswordSetter \<Rightarrow> fan" where
  "fan_start m = \<lparr>slots = maxParallel m, held = False, pos = 0, running = {}, left = False\<rparr>"

text \<open>
  The steps over \<open>n\<close> targets. \<open>take\<close>: the \<^verbatim>\<open>select\<close> receives from
  \<^verbatim>\<open>maxParallel\<close>. \<open>cancel\<close>: it receives from \<^verbatim>\<open>ctx.Done()\<close>, and the loop is left
  for \<^verbatim>\<open>wg.Wait()\<close>. \<open>skip\<close>: the rollback of a target that was not set sends the token
  back and continues. \<open>go\<close>: the goroutine of the target is started. \<open>finish\<close>: the
  deferred function of a goroutine sends the token back, after a return and after a panic
  alike. \<open>again\<close>: all goroutines have finished, \<^verbatim>\<open>setAll\<close> returns, and a later pass
  starts. Which targets a pass skips is left open.
\<close>

inductive fan_step :: "nat \<Rightarrow> fan \<Rightarrow> fan \<Rightarrow> bool" where
  take: "\<lbrakk>\<not> left f; \<not> held f; pos f < n; 0 < slots f\<rbrakk>
    \<Longrightarrow> fan_step n f (f\<lparr>slots := slots f - 1, held := True\<rparr>)"
| cancel: "\<lbrakk>\<not> left f; \<not> held f; pos f < n\<rbrakk>
    \<Longrightarrow> fan_step n f (f\<lparr>left := True\<rparr>)"
| skip: "held f
    \<Longrightarrow> fan_step n f (f\<lparr>slots := slots f + 1, held := False, pos := pos f + 1\<rparr>)"
| go: "held f
    \<Longrightarrow> fan_step n f (f\<lparr>running := insert (pos f) (running f), held := False, pos := pos f + 1\<rparr>)"
| finish: "i \<in> running f
    \<Longrightarrow> fan_step n f (f\<lparr>running := running f - {i}, slots := slots f + 1\<rparr>)"
| again: "\<lbrakk>left f \<or> pos f = n; \<not> held f; running f = {}\<rbrakk>
    \<Longrightarrow> fan_step n f (f\<lparr>pos := 0, left := False\<rparr>)"

inductive fan_reachable :: "PasswordSetter \<Rightarrow> fan \<Rightarrow> bool" where
  start: "fan_reachable m (fan_start m)"
| step: "\<lbrakk>fan_reachable m f; fan_step (length (dbs m)) f f'\<rbrakk> \<Longrightarrow> fan_reachable m f'"

section \<open>Observations on traces\<close>

text \<open>The calls that change the secret: the secret setter's \<^verbatim>\<open>Rotate\<close> and the writes to
  Secrets Manager.\<close>

fun is_write :: "io \<Rightarrow> bool" where
  "is_write (SM_PutSecretValue input res) = True"
| "is_write (SM_UpdateSecretVersionStage input res) = True"
| "is_write (SS_Rotate v res) = True"
| "is_write _ = False"

text \<open>The calls of the \<^verbatim>\<open>db.PasswordSetter\<close>.\<close>

fun is_db :: "io \<Rightarrow> bool" where
  "is_db (DB_Init event res) = True"
| "is_db (DB_SetPassword creds res) = True"
| "is_db (DB_VerifyPassword creds res) = True"
| "is_db (DB_Rollback creds res) = True"
| "is_db _ = False"

text \<open>The calls of the database client, the one \<^verbatim>\<open>setOne\<close> makes for an action, the
  calls that returned nil, and the sleeps.\<close>

fun is_client :: "io \<Rightarrow> bool" where
  "is_client (Client_SetPassword creds res) = True"
| "is_client (Client_VerifyPassword creds res) = True"
| "is_client _ = False"

definition client_io :: "action \<Rightarrow> NewPassword \<Rightarrow> error option \<Rightarrow> io" where
  "client_io act creds res =
     (if act = verify_password then Client_VerifyPassword creds res else Client_SetPassword creds res)"

fun succeeded :: "io \<Rightarrow> bool" where
  "succeeded (Client_SetPassword creds res) = (res = None)"
| "succeeded (Client_VerifyPassword creds res) = (res = None)"
| "succeeded _ = False"

fun is_sleep :: "io \<Rightarrow> bool" where
  "is_sleep (Sleep d) = True"
| "is_sleep _ = False"

text \<open>What was done between two states: the part of the later trace after the earlier one.\<close>

definition new_io :: "'w sys \<Rightarrow> 'w sys \<Rightarrow> io list" where
  "new_io s s' = drop (length (trace s)) (trace s')"

text \<open>The answer of a call of the database client.\<close>

fun client_answer :: "io \<Rightarrow> error option" where
  "client_answer (Client_SetPassword creds res) = res"
| "client_answer (Client_VerifyPassword creds res) = res"
| "client_answer _ = None"



text \<open>What a Rollback pass that is not cancelled has done for a target \<open>d\<close> whose \<^verbatim>\<open>set\<close>
  flag is true, \<open>d'\<close> being its slot afterwards: it has called the client for it unless there
  are no tries, and either a call returned nil and the target is marked as rolled back, or
  the target carries an error of the rollback.\<close>

definition rb_served :: "PasswordSetter \<Rightarrow> NewPassword \<Rightarrow> dbInstance \<Rightarrow> io list \<Rightarrow> dbInstance \<Rightarrow> bool" where
  "rb_served m sw d xs d' =
     ((tries m \<noteq> 0 \<longrightarrow> (\<exists>a. Client_SetPassword (stamp (hostname d) sw) a \<in> set xs)) \<and>
      ((rolledBack d' \<and> Client_SetPassword (stamp (hostname d) sw) None \<in> set xs) \<or>
       rollbackError d' \<noteq> None))"

text \<open>The slots a pass of the action leaves alone: the hostnames, and the flag and the error
  of the other two actions.\<close>

definition slots_kept :: "action \<Rightarrow> dbInstance list \<Rightarrow> dbInstance list \<Rightarrow> bool" where
  "slots_kept act ds ds' =
     (length ds' = length ds \<and>
      (\<forall>j<length ds.
          hostname (ds' ! j) = hostname (ds ! j) \<and>
          (act \<noteq> set_password \<longrightarrow>
             set' (ds' ! j) = set' (ds ! j) \<and> setError (ds' ! j) = setError (ds ! j)) \<and>
          (act \<noteq> verify_password \<longrightarrow>
             verified (ds' ! j) = verified (ds ! j) \<and> verifyError (ds' ! j) = verifyError (ds ! j)) \<and>
          (act \<noteq> rollback_password \<longrightarrow>
             rolledBack (ds' ! j) = rolledBack (ds ! j) \<and>
             rollbackError (ds' ! j) = rollbackError (ds ! j))))"

text \<open>The calls of Secrets Manager; the calls and sleeps of a trace.\<close>

fun is_sm :: "io \<Rightarrow> bool" where
  "is_sm (SM_GetSecretValue sid stage res) = True"
| "is_sm (SM_PutSecretValue input res) = True"
| "is_sm (SM_UpdateSecretVersionStage input res) = True"
| "is_sm (SM_DescribeSecret sid res) = True"
| "is_sm _ = False"

definition steps :: "io list \<Rightarrow> io list" where
  "steps xs = filter (\<lambda>x. is_sm x \<or> is_sleep x) xs"




definition polls :: "string \<Rightarrow> (error + DescribeSecretOutput option) list \<Rightarrow> io list" where
  "polls sid answers = concat (map (\<lambda>a. [SM_DescribeSecret sid a, Sleep pollInterval]) answers)"


section \<open>Test doubles\<close>

text \<open>The secrets and the mock collaborators of the package's tests; the world of the mocks
  counts the calls of Secrets Manager.\<close>

definition secretString1 :: string where
  "secretString1 = ''{\"password\":\"p1\",\"username\":\"foo\",\"v\":\"1\"}''"

definition secretString2 :: string where
  "secretString2 = ''{\"password\":\"p2\",\"username\":\"foo\",\"v\":\"2\"}''"

definition vals1 :: secret where
  "vals1 = [''password'' \<mapsto> ''p1'', ''username'' \<mapsto> ''foo'', ''v'' \<mapsto> ''1'']"

definition vals2 :: secret where
  "vals2 = [''password'' \<mapsto> ''p2'', ''username'' \<mapsto> ''foo'', ''v'' \<mapsto> ''2'']"

definition mock_Unmarshal :: "string \<Rightarrow> error + secret option" where
  "mock_Unmarshal str =
     (if str = secretString1 then Inr (Some vals1)
      else if str = secretString2 then Inr (Some vals2)
      else if str = ''null'' then Inr None
      else Inl (ErrOther ''invalid character''))"

definition current_v1 :: GetSecretValueOutput where
  "current_v1 = \<lparr>VersionId = ''v1'', VersionStages = [AWSCURRENT], SecretString = Some secretString1\<rparr>"

definition pending :: "string \<Rightarrow> GetSecretValueOutput" where
  "pending v = \<lparr>VersionId = v, VersionStages = [AWSPENDING], SecretString = Some secretString2\<rparr>"

definition mock_GetSecretValue ::
  "string \<Rightarrow> string \<Rightarrow> string \<Rightarrow> nat \<Rightarrow> (error + GetSecretValueOutput) \<times> nat" where
  "mock_GetSecretValue pendingId sid stage w =
     (if stage = AWSCURRENT then Inr current_v1
      else if stage = AWSPENDING then Inr (pending pendingId)
      else Inl (AwsErr ErrCodeResourceNotFoundException ''not found''),
      Suc w)"

definition in_sync_us_west_2 :: DescribeSecretOutput where
  "in_sync_us_west_2 =
     \<lparr>ReplicationStatus = [Some \<lparr>Region = ''us-west-2'', Status = StatusTypeInSync\<rparr>]\<rparr>"

definition mock :: "string \<Rightarrow> nat env" where
  "mock pendingId =
     \<lparr>sm_GetSecretValue = mock_GetSecretValue pendingId,
      sm_PutSecretValue =
        (\<lambda>input w. (Inr \<lparr>out_VersionId = put_ClientRequestToken input,
                          out_VersionStages = put_VersionStages input\<rparr>, Suc w)),
      sm_UpdateSecretVersionStage = (\<lambda>input w. (None, Suc w)),
      sm_DescribeSecret = (\<lambda>sid w. (Inr (Some in_sync_us_west_2), Suc w)),
      ss_Init = (\<lambda>event w. (None, w)),
      ss_Handler = (\<lambda>event w. ((None, None), w)),
      ss_Rotate = (\<lambda>v w. ((None, v), w)),
      ss_Credentials = (\<lambda>v w. ((index v ''username'', index v ''password''), w)),
      db_Init = (\<lambda>event w. (None, w)),
      db_SetPassword = (\<lambda>creds w. (None, w)),
      db_VerifyPassword = (\<lambda>creds w. (None, w)),
      db_Rollback = (\<lambda>creds w. (None, w)),
      ev_Receive = (\<lambda>e w. w),
      json_Unmarshal = mock_Unmarshal,
      json_Marshal = (\<lambda>v. Inr secretString2),
      latency = (\<lambda>w. 1000000)\<rparr>"

definition rotator0 :: Rotator where
  "rotator0 = \<lparr>skipDb = False, clientRequestToken = ''abc'', secretId = ''def'',
               startTime = 0, replicationWaitDuration = 0\<rparr>"

definition sys0 :: "nat sys" where
  "sys0 = \<lparr>world = 0, clock = 0, trace = []\<rparr>"

definition bad_step_event :: "string \<rightharpoonup> string" where
  "bad_step_event = [''ClientRequestToken'' \<mapsto> ''abc'', ''SecretId'' \<mapsto> ''def'', ''Step'' \<mapsto> ''deleteSecret'']"

text \<open>A store whose third and later \<^verbatim>\<open>GetSecretValue\<close> calls fail, and a password setter
  whose \<^verbatim>\<open>SetPassword\<close> and \<^verbatim>\<open>VerifyPassword\<close> fail while its \<^verbatim>\<open>Rollback\<close> works.\<close>

definition internal_error :: error where
  "internal_error = AwsErr ''InternalServiceError'' ''an error occurred on the server side''"

definition flaky_GetSecretValue ::
  "string \<Rightarrow> string \<Rightarrow> nat \<Rightarrow> (error + GetSecretValueOutput) \<times> nat" where
  "flaky_GetSecretValue sid stage w =
     (if 2 \<le> w then (Inl internal_error, Suc w) else mock_GetSecretValue ''abc'' sid stage w)"

definition mock_db_fails :: "nat env" where
  "mock_db_fails =
     (mock ''abc'')\<lparr>sm_GetSecretValue := flaky_GetSecretValue,
                    db_SetPassword := (\<lambda>creds w. (Some (ErrOther ''fake db error''), w)),
                    db_VerifyPassword := (\<lambda>creds w. (Some (ErrOther ''fake db error''), w))\<rparr>"

definition creds_foo :: NewPassword where
  "creds_foo = \<lparr>Current = \<lparr>Username = ''foo'', Hostname = [], Password = ''p1''\<rparr>,
                New = \<lparr>Username = ''foo'', Hostname = [], Password = ''p2''\<rparr>\<rparr>"

text \<open>The mock client of the mysql tests: its first \<open>nCallsToFail\<close> calls fail; the world
  counts its calls. And the contexts, credentials and password setters of the tests.\<close>

definition fake_db_error :: error where
  "fake_db_error = ErrOther ''fake db error''"

definition mock_client :: "nat \<Rightarrow> nat dbenv" where
  "mock_client nCallsToFail =
     \<lparr>DbClient_SetPassword = (\<lambda>creds w. (if w < nCallsToFail then Some fake_db_error else None, Suc w)),
      DbClient_VerifyPassword = (\<lambda>creds w. (if w < nCallsToFail then Some fake_db_error else None, Suc w)),
      client_latency = (\<lambda>w. 1000000),
      select_done = (\<lambda>i. True)\<rparr>"

definition failing_client :: "nat dbenv" where
  "failing_client =
     \<lparr>DbClient_SetPassword = (\<lambda>creds w. (Some fake_db_error, Suc w)),
      DbClient_VerifyPassword = (\<lambda>creds w. (Some fake_db_error, Suc w)),
      client_latency = (\<lambda>w. 1000000),
      select_done = (\<lambda>i. True)\<rparr>"

definition background :: Context where
  "background = \<lparr>done_at = None, ctx_err = ErrOther ''context canceled''\<rparr>"

definition cancelled_at :: "int \<Rightarrow> Context" where
  "cancelled_at t = \<lparr>done_at = Some t, ctx_err = ErrOther ''context canceled''\<rparr>"

definition creds_user :: NewPassword where
  "creds_user = \<lparr>Current = \<lparr>Username = ''user'', Hostname = ''addr:3306'', Password = ''old_pass''\<rparr>,
                 New = \<lparr>Username = ''user'', Hostname = ''addr:3306'', Password = ''new_pass''\<rparr>\<rparr>"

definition retry2 :: Config where
  "retry2 = \<lparr>Parallel = 0, Retry = 2, RetryWait = 250 * 1000000\<rparr>"



definition fresh_instance :: "string \<Rightarrow> dbInstance" where
  "fresh_instance h = \<lparr>hostname = h, set' = False, verified = False, rolledBack = False,
                 setError = None, verifyError = None, rollbackError = None\<rparr>"

definition setter :: "Config \<Rightarrow> string list \<Rightarrow> PasswordSetter" where
  "setter c hosts = (NewPasswordSetter c)\<lparr>initDone := True, dbs := map fresh_instance hosts\<rparr>"

text \<open>A client that fails on one host; a Set pass over three targets with it, and the
  Rollback pass after it.\<close>

definition host_fails :: "string \<Rightarrow> nat dbenv" where
  "host_fails h =
     \<lparr>DbClient_SetPassword =
        (\<lambda>creds w. (if Hostname (New creds) = h then Some fake_db_error else None, Suc w)),
      DbClient_VerifyPassword =
        (\<lambda>creds w. (if Hostname (New creds) = h then Some fake_db_error else None, Suc w)),
      client_latency = (\<lambda>w. 1000000),
      select_done = (\<lambda>i. True)\<rparr>"

definition no_retry :: Config where
  "no_retry = \<lparr>Parallel = 0, Retry = 0, RetryWait = 0\<rparr>"

definition set_pass3 :: "(error option \<times> PasswordSetter) \<times> nat sys" where
  "set_pass3 =
     SetPassword (host_fails ''b:3306'') background
       (setter no_retry [''a:3306'', ''b:3306'', ''c:3306'']) creds_user sys0"


text \<open>Two Verify passes over one target: the client fails its first call only.\<close>

definition verify_pass1 :: "(error option \<times> PasswordSetter) \<times> nat sys" where
  "verify_pass1 =
     VerifyPassword (mock_client 1) background (setter no_retry [''addr:3306'']) creds_user sys0"

definition verify_pass2 :: "(error option \<times> PasswordSetter) \<times> nat sys" where
  "verify_pass2 =
     VerifyPassword (mock_client 1) background (snd (fst verify_pass1)) creds_user (snd verify_pass1)"

text \<open>A password setter with two slots and three targets.\<close>

definition parallel2 :: Config where
  "parallel2 = \<lparr>Parallel = 2, Retry = 0, RetryWait = 0\<rparr>"

definition setter2 :: PasswordSetter where
  "setter2 = setter parallel2 [''a:3306'', ''b:3306'', ''c:3306'']"



section \<open>Properties\<close>

lemmas mock_simps = mock_def mock_GetSecretValue_def mock_Unmarshal_def rotator0_def sys0_def
  current_v1_def pending_def secretString1_def secretString2_def AWSCURRENT_def AWSPENDING_def

subsection \<open>Traces of the primitives\<close>

lemma trace_logf: "trace (logf f as s) = trace s @ [Log f as]"
  by (simp add: logf_def emit_def)

lemma clock_logf: "clock (logf f as s) = clock s"
  by (simp add: logf_def emit_def)

lemma world_logf: "world (logf f as s) = world s"
  by (simp add: logf_def emit_def)

lemma trace_receive: "trace (receive env e s) = trace s @ [Receive e]"
  by (simp add: receive_def ext_def split: prod.splits)

lemma getSecret_found:
  assumes "getSecret env r stage s = (Inr (sec, vals), s')"
  shows "trace s' = trace s @ [SM_GetSecretValue (secretId r) stage (Inr sec)]"
  using assms
  by (auto simp: getSecret_def ext_def split: prod.splits sum.splits option.splits if_splits)

subsection \<open>createSecret\<close>

text \<open>
  C1. A retry of createSecret. When the current secret is fetched, is not the version of
  this run and does not carry the pending label, and the fetch of the pending secret finds a
  version whose id is this run's client request token, \<^verbatim>\<open>CreateSecret\<close> returns nil, and
  all it did is: its first log line, the begin-rotation event, the two fetches, and the log
  line of its return. Neither \<^verbatim>\<open>Rotate\<close> nor \<^verbatim>\<open>PutSecretValue\<close> (nor any other write)
  is called, and the world is left as the second fetch left it. A second call of the same run
  is such a call, so it writes nothing.
\<close>

theorem createSecret_retry_no_write:
  assumes cur: "getSecret env r AWSCURRENT (CreateSecret_begin env s) = (Inr (curSec, curVals), s1)"
      and notours: "VersionId curSec \<noteq> clientRequestToken r"
      and nopending: "\<not> currentHasPending (VersionStages curSec)"
      and pen: "getSecret env r AWSPENDING s1 = (Inr (penSec, penVals), s2)"
      and ours: "VersionId penSec = clientRequestToken r"
  shows "fst (CreateSecret env r s) = None \<and>
         trace (snd (CreateSecret env r s)) = trace s @
           [Log ''CreateSecret call'' [],
            Receive \<lparr>Name = EVENT_BEGIN_ROTATION, Step = ''createSecret'', Time = clock s, Error = None\<rparr>,
            SM_GetSecretValue (secretId r) AWSCURRENT (Inr curSec),
            SM_GetSecretValue (secretId r) AWSPENDING (Inr penSec),
            Log ''CreateSecret return: %dms'' [AInt (Milliseconds (clock s2 - clock s))]] \<and>
         filter is_write (trace (snd (CreateSecret env r s))) = filter is_write (trace s) \<and>
         world (snd (CreateSecret env r s)) = world s2"
proof -
  have body: "CreateSecret_body env r s = (None, s2)"
    using cur notours nopending pen ours by (auto simp: CreateSecret_body_def)
  have t0: "trace (CreateSecret_begin env s) = trace s @
      [Log ''CreateSecret call'' [],
       Receive \<lparr>Name = EVENT_BEGIN_ROTATION, Step = ''createSecret'', Time = clock s, Error = None\<rparr>]"
    by (simp add: CreateSecret_begin_def Let_def trace_receive trace_logf clock_logf)
  have t1: "trace s1 = trace (CreateSecret_begin env s) @
      [SM_GetSecretValue (secretId r) AWSCURRENT (Inr curSec)]"
    using getSecret_found [OF cur] .
  have t2: "trace s2 = trace s1 @ [SM_GetSecretValue (secretId r) AWSPENDING (Inr penSec)]"
    using getSecret_found [OF pen] .
  show ?thesis
    by (simp add: CreateSecret_def body deferred_return_def trace_logf clock_logf world_logf t0 t1 t2)
qed

theorem createSecret_retry_no_write_witness:
  "fst (CreateSecret (mock ''abc'') rotator0 sys0) = None \<and>
   filter is_write (trace (snd (CreateSecret (mock ''abc'') rotator0 sys0))) = [] \<and>
   world (snd (CreateSecret (mock ''abc'') rotator0 sys0)) = 2"
proof -
  obtain s1 where cur: "getSecret (mock ''abc'') rotator0 AWSCURRENT
      (CreateSecret_begin (mock ''abc'') sys0) = (Inr (current_v1, vals1), s1)"
    and w1: "world s1 = 1"
    by (simp add: getSecret_def ext_def CreateSecret_begin_def receive_def logf_def emit_def mock_simps)
  obtain s2 where pen: "getSecret (mock ''abc'') rotator0 AWSPENDING s1 = (Inr (pending ''abc'', vals2), s2)"
    and w2: "world s2 = 2"
    using w1 by (simp add: getSecret_def ext_def mock_simps)
  have "VersionId current_v1 \<noteq> clientRequestToken rotator0"
    and "\<not> currentHasPending (VersionStages current_v1)"
    and "VersionId (pending ''abc'') = clientRequestToken rotator0"
    by (simp_all add: mock_simps)
  from createSecret_retry_no_write [OF cur this(1,2) pen this(3)] w2
  show ?thesis by (simp add: sys0_def)
qed

text \<open>
  C2. A conflicting pending secret. When the current secret is fetched, is not the version of
  this run and does not carry the pending label, and the fetch of the pending secret finds a
  version whose id differs from this run's client request token, \<^verbatim>\<open>CreateSecret\<close>
  returns the error "another pending secret exists" naming that version, and all it did is:
  its first log line, the begin-rotation event, the two fetches, and the log line of its
  return. No write is called (\<^verbatim>\<open>PutSecretValue\<close> in particular), and the world is left
  as the second fetch left it.
\<close>

theorem createSecret_conflict_no_write:
  assumes cur: "getSecret env r AWSCURRENT (CreateSecret_begin env s) = (Inr (curSec, curVals), s1)"
      and notours: "VersionId curSec \<noteq> clientRequestToken r"
      and nopending: "\<not> currentHasPending (VersionStages curSec)"
      and pen: "getSecret env r AWSPENDING s1 = (Inr (penSec, penVals), s2)"
      and differs: "VersionId penSec \<noteq> clientRequestToken r"
  shows "fst (CreateSecret env r s) = Some (ErrAnotherPending (VersionId penSec)) \<and>
         trace (snd (CreateSecret env r s)) = trace s @
           [Log ''CreateSecret call'' [],
            Receive \<lparr>Name = EVENT_BEGIN_ROTATION, Step = ''createSecret'', Time = clock s, Error = None\<rparr>,
            SM_GetSecretValue (secretId r) AWSCURRENT (Inr curSec),
            SM_GetSecretValue (secretId r) AWSPENDING (Inr penSec),
            Log ''CreateSecret return: %dms'' [AInt (Milliseconds (clock s2 - clock s))]] \<and>
         filter is_write (trace (snd (CreateSecret env r s))) = filter is_write (trace s) \<and>
         world (snd (CreateSecret env r s)) = world s2"
proof -
  have body: "CreateSecret_body env r s = (Some (ErrAnotherPending (VersionId penSec)), s2)"
    using cur notours nopending pen differs by (auto simp: CreateSecret_body_def)
  have t0: "trace (CreateSecret_begin env s) = trace s @
      [Log ''CreateSecret call'' [],
       Receive \<lparr>Name = EVENT_BEGIN_ROTATION, Step = ''createSecret'', Time = clock s, Error = None\<rparr>]"
    by (simp add: CreateSecret_begin_def Let_def trace_receive trace_logf clock_logf)
  have t1: "trace s1 = trace (CreateSecret_begin env s) @
      [SM_GetSecretValue (secretId r) AWSCURRENT (Inr curSec)]"
    using getSecret_found [OF cur] .
  have t2: "trace s2 = trace s1 @ [SM_GetSecretValue (secretId r) AWSPENDING (Inr penSec)]"
    using getSecret_found [OF pen] .
  show ?thesis
    by (simp add: CreateSecret_def body deferred_return_def trace_logf clock_logf world_logf t0 t1 t2)
qed

theorem createSecret_conflict_no_write_witness:
  "fst (CreateSecret (mock ''v2'') rotator0 sys0) = Some (ErrAnotherPending ''v2'') \<and>
   filter is_write (trace (snd (CreateSecret (mock ''v2'') rotator0 sys0))) = [] \<and>
   world (snd (CreateSecret (mock ''v2'') rotator0 sys0)) = 2"
proof -
  obtain s1 where cur: "getSecret (mock ''v2'') rotator0 AWSCURRENT
      (CreateSecret_begin (mock ''v2'') sys0) = (Inr (current_v1, vals1), s1)"
    and w1: "world s1 = 1"
    by (simp add: getSecret_def ext_def CreateSecret_begin_def receive_def logf_def emit_def mock_simps)
  obtain s2 where pen: "getSecret (mock ''v2'') rotator0 AWSPENDING s1 = (Inr (pending ''v2'', vals2), s2)"
    and w2: "world s2 = 2"
    using w1 by (simp add: getSecret_def ext_def mock_simps)
  have "VersionId current_v1 \<noteq> clientRequestToken rotator0"
    and "\<not> currentHasPending (VersionStages current_v1)"
    and "VersionId (pending ''v2'') \<noteq> clientRequestToken rotator0"
    by (simp_all add: mock_simps)
  from createSecret_conflict_no_write [OF cur this(1,2) pen this(3)] w2
  show ?thesis by (simp add: sys0_def pending_def)
qed

subsection \<open>Handler\<close>

lemma index_Some: "m k = Some v \<Longrightarrow> index m k = v"
  by (simp add: index_def)

text \<open>
  C10. An event with all three keys whose Step is none of the four steps. When the
  \<^verbatim>\<open>Init\<close> of the secret setter and then the \<^verbatim>\<open>Init\<close> of the password setter return
  nil (an error of either is returned as it is, before the step is looked at),
  \<^verbatim>\<open>Handler\<close> returns a nil map and \<^verbatim>\<open>ErrInvalidStep\<close>; the two \<^verbatim>\<open>Init\<close> calls are its
  only effects, in this order, and the world is the one they left.
\<close>

theorem Handler_invalid_step:
  assumes sm: "InvokedBySecretsManager event"
      and step: "index event ''Step'' \<notin> {''createSecret'', ''setSecret'', ''testSecret'', ''finishSecret''}"
      and ssinit: "ss_Init env event (world s) = (None, w1)"
      and dbinit: "db_Init env event w1 = (None, w2)"
  shows "fst (Handler env event r s) = (None, Some ErrInvalidStep) \<and>
         trace (snd (snd (Handler env event r s))) =
           trace s @ [SS_Init event None, DB_Init event None] \<and>
         world (snd (snd (Handler env event r s))) = w2 \<and>
         fst (snd (Handler env event r s)) =
           r\<lparr>clientRequestToken := index event ''ClientRequestToken'',
             secretId := index event ''SecretId''\<rparr>"
  using assms by (simp add: Handler_def ext_def Let_def)

theorem Handler_invalid_step_witness:
  "InvokedBySecretsManager bad_step_event \<and>
   fst (Handler (mock ''v2'') bad_step_event rotator0 sys0) = (None, Some ErrInvalidStep) \<and>
   trace (snd (snd (Handler (mock ''v2'') bad_step_event rotator0 sys0))) =
     [SS_Init bad_step_event None, DB_Init bad_step_event None]"
proof -
  have a: "InvokedBySecretsManager bad_step_event"
    by (simp add: InvokedBySecretsManager_def bad_step_event_def)
  have b: "index bad_step_event ''Step'' \<notin> {''createSecret'', ''setSecret'', ''testSecret'', ''finishSecret''}"
    by (simp add: index_def bad_step_event_def)
  have c: "ss_Init (mock ''v2'') bad_step_event (world sys0) = (None, 0)"
    and d: "db_Init (mock ''v2'') bad_step_event 0 = (None, 0)"
    by (simp_all add: mock_def sys0_def)
  from Handler_invalid_step [OF a b c d, of rotator0] a
  show ?thesis by (simp add: sys0_def)
qed

subsection \<open>setSecret and testSecret\<close>

text \<open>
  C5. The error of a failed setSecret or testSecret. With the store and the password setter of
  \<open>mock_db_fails\<close>, \<^verbatim>\<open>SetPassword\<close> (resp. \<^verbatim>\<open>VerifyPassword\<close>) fails, the rollback
  path is taken and \<^verbatim>\<open>Rollback\<close> returns nil, and then the fetch of the pending secret in
  \<^verbatim>\<open>rollback\<close> fails: the step returns the error of that fetch, not
  \<^verbatim>\<open>errRotationFailed\<close>.
\<close>

theorem rollback_returns_fetch_error:
  "fst (fst (SetSecret mock_db_fails rotator0 sys0)) = Some internal_error \<and>
   fst (TestSecret mock_db_fails rotator0 sys0) = Some internal_error \<and>
   internal_error \<noteq> ErrRotationFailed \<and>
   filter is_db (trace (snd (SetSecret mock_db_fails rotator0 sys0))) =
     [DB_SetPassword creds_foo (Some (ErrOther ''fake db error'')), DB_Rollback creds_foo None] \<and>
   filter is_db (trace (snd (TestSecret mock_db_fails rotator0 sys0))) =
     [DB_VerifyPassword creds_foo (Some (ErrOther ''fake db error'')), DB_Rollback creds_foo None]"
  by (simp add: SetSecret_def SetSecret_body_def TestSecret_def TestSecret_body_def fetchCreds_def
      rollback_def getSecret_def ext_def receive_def logf_def emit_def deferred_return_def
      mock_db_fails_def flaky_GetSecretValue_def internal_error_def creds_foo_def index_def
      vals1_def vals2_def mock_simps Let_def)

subsection \<open>setOne\<close>

declare setOne_loop.simps [simp del]


lemma clientCall_eq:
  "clientCall env act creds s =
     (fst (clientCall env act creds s),
      \<lparr>world = world (snd (clientCall env act creds s)),
       clock = clock s + int (client_latency env (world s)),
       trace = trace s @ [client_io act creds (fst (clientCall env act creds s))]\<rparr>)"
  by (simp add: clientCall_def ext_def client_io_def split: prod.splits)

lemma clientCall_trace:
  "clientCall env act creds s = (res, s1) \<Longrightarrow> trace s1 = trace s @ [client_io act creds res]"
  by (metis clientCall_eq fst_conv snd_conv sys.select_convs(3))

lemma clientCall_clock:
  "clientCall env act creds s = (res, s1) \<Longrightarrow> clock s1 = clock s + int (client_latency env (world s))"
  by (metis clientCall_eq snd_conv sys.select_convs(2))

lemma trace_retryWait:
  "trace (retryWait m creds act tryNo err s) = trace s @
     [Log ''%s: error %s password try %d of %d, retry in %s: %s''
        [AStr (Hostname (Current creds)), AStr (action_string act),
         AInt (uint tryNo), AInt (uint (tries m)), AInt (RetryWait (cfg m)), AErr err],
      Sleep (RetryWait (cfg m))]"
  by (simp add: retryWait_def sleep_def logf_def emit_def)

lemma clock_retryWait:
  "clock (retryWait m creds act tryNo err s) = clock s + max 0 (RetryWait (cfg m))"
  by (simp add: retryWait_def sleep_def logf_def emit_def)

lemma is_client_io [simp]: "is_client (client_io act creds res)"
  by (simp add: client_io_def)

lemma is_sleep_client_io [simp]: "\<not> is_sleep (client_io act creds res)"
  by (simp add: client_io_def)

lemma succeeded_client_io [simp]: "succeeded (client_io act creds res) = (res = None)"
  by (simp add: client_io_def)

text \<open>The six ways through one turn of the loop.\<close>

lemma setOne_loop_end:
  "\<not> tryNo \<le> tries m \<Longrightarrow> setOne_loop env ctx m creds act tryNo s = (Some (ErrReachedEnd act), s)"
  by (subst setOne_loop.simps) simp

lemma setOne_loop_ok:
  "\<lbrakk>tryNo \<le> tries m; clientCall env act creds s = (None, s1)\<rbrakk>
   \<Longrightarrow> setOne_loop env ctx m creds act tryNo s = (None, s1)"
  by (subst setOne_loop.simps) simp

lemma setOne_loop_last:
  "\<lbrakk>tryNo = tries m; clientCall env act creds s = (Some err, s1)\<rbrakk>
   \<Longrightarrow> setOne_loop env ctx m creds act tryNo s = (Some err, s1)"
  by (subst setOne_loop.simps) simp

lemma setOne_loop_cancelled:
  "\<lbrakk>tryNo < tries m; clientCall env act creds s = (Some err, s1); ctx_Done ctx (clock s1)\<rbrakk>
   \<Longrightarrow> setOne_loop env ctx m creds act tryNo s =
         (Some err,
          logf ''%s: context cancelled after %s password, not retrying (%d tries remained)''
            [AStr (Hostname (Current creds)), AStr (action_string act),
             AInt (uint (tries m - tryNo))] s1)"
  by (subst setOne_loop.simps) (simp add: less_le)

lemma setOne_loop_cancelled_in_sleep:
  "\<lbrakk>tryNo < tries m; clientCall env act creds s = (Some err, s1); \<not> ctx_Done ctx (clock s1);
    ctx_Done ctx (clock (retryWait m creds act tryNo err s1))\<rbrakk>
   \<Longrightarrow> setOne_loop env ctx m creds act tryNo s =
         (Some (ctx_err ctx),
          logf ''%s: context cancelled after %s password retry wait, not retrying (%d tries remained)''
            [AStr (Hostname (Current creds)), AStr (action_string act),
             AInt (uint (tries m - tryNo))] (retryWait m creds act tryNo err s1))"
  by (subst setOne_loop.simps) (simp add: Let_def less_le)

lemma setOne_loop_retry:
  "\<lbrakk>tryNo < tries m; clientCall env act creds s = (Some err, s1); \<not> ctx_Done ctx (clock s1);
    \<not> ctx_Done ctx (clock (retryWait m creds act tryNo err s1))\<rbrakk>
   \<Longrightarrow> setOne_loop env ctx m creds act tryNo s =
         setOne_loop env ctx m creds act (tryNo + 1) (retryWait m creds act tryNo err s1)"
  by (subst setOne_loop.simps) (simp add: Let_def less_le)

lemma setOne_loop_cases [case_names fallthrough success lasttry cancelled cancelled_in_sleep retry]:
  assumes "\<And>tryNo s. \<not> tryNo \<le> tries m \<Longrightarrow> P tryNo s (Some (ErrReachedEnd act), s)"
      and "\<And>tryNo s s1. \<lbrakk>tryNo \<le> tries m; clientCall env act creds s = (None, s1)\<rbrakk>
             \<Longrightarrow> P tryNo s (None, s1)"
      and "\<And>tryNo s err s1. \<lbrakk>tryNo = tries m; clientCall env act creds s = (Some err, s1)\<rbrakk>
             \<Longrightarrow> P tryNo s (Some err, s1)"
      and "\<And>tryNo s err s1.
             \<lbrakk>tryNo < tries m; clientCall env act creds s = (Some err, s1); ctx_Done ctx (clock s1)\<rbrakk>
             \<Longrightarrow> P tryNo s (Some err,
                   logf ''%s: context cancelled after %s password, not retrying (%d tries remained)''
                     [AStr (Hostname (Current creds)), AStr (action_string act),
                      AInt (uint (tries m - tryNo))] s1)"
      and "\<And>tryNo s err s1.
             \<lbrakk>tryNo < tries m; clientCall env act creds s = (Some err, s1); \<not> ctx_Done ctx (clock s1);
              ctx_Done ctx (clock (retryWait m creds act tryNo err s1))\<rbrakk>
             \<Longrightarrow> P tryNo s (Some (ctx_err ctx),
                   logf ''%s: context cancelled after %s password retry wait, not retrying (%d tries remained)''
                     [AStr (Hostname (Current creds)), AStr (action_string act),
                      AInt (uint (tries m - tryNo))] (retryWait m creds act tryNo err s1))"
      and "\<And>tryNo s err s1.
             \<lbrakk>tryNo < tries m; clientCall env act creds s = (Some err, s1); \<not> ctx_Done ctx (clock s1);
              \<not> ctx_Done ctx (clock (retryWait m creds act tryNo err s1));
              P (tryNo + 1) (retryWait m creds act tryNo err s1)
                (setOne_loop env ctx m creds act (tryNo + 1) (retryWait m creds act tryNo err s1))\<rbrakk>
             \<Longrightarrow> P tryNo s (setOne_loop env ctx m creds act (tryNo + 1) (retryWait m creds act tryNo err s1))"
  shows "P tryNo s (setOne_loop env ctx m creds act tryNo s)"
  using assms
proof (induction env ctx m creds act tryNo s rule: setOne_loop.induct)
  case (1 env ctx m creds act tryNo s)
  obtain res s1 where call: "clientCall env act creds s = (res, s1)" by force
  consider (e) "\<not> tryNo \<le> tries m" | (ok) "tryNo \<le> tries m" "res = None"
    | (l) err where "tryNo = tries m" "res = Some err"
    | (c) err where "tryNo < tries m" "res = Some err" "ctx_Done ctx (clock s1)"
    | (cs) err where "tryNo < tries m" "res = Some err" "\<not> ctx_Done ctx (clock s1)"
         "ctx_Done ctx (clock (retryWait m creds act tryNo err s1))"
    | (r) err where "tryNo < tries m" "res = Some err" "\<not> ctx_Done ctx (clock s1)"
         "\<not> ctx_Done ctx (clock (retryWait m creds act tryNo err s1))"
    by (cases res) (auto simp: less_le)
  then show ?case
  proof cases
    case e then show ?thesis using "1.prems"(1) by (simp add: setOne_loop_end)
  next
    case ok then show ?thesis using call "1.prems"(2) by (simp add: setOne_loop_ok)
  next
    case l then show ?thesis using call "1.prems"(3) by (simp add: setOne_loop_last)
  next
    case c then show ?thesis using call "1.prems"(4) by (simp add: setOne_loop_cancelled)
  next
    case cs then show ?thesis using call "1.prems"(5) by (simp add: setOne_loop_cancelled_in_sleep)
  next
    case r
    have "P (tryNo + 1) (retryWait m creds act tryNo err s1)
            (setOne_loop env ctx m creds act (tryNo + 1) (retryWait m creds act tryNo err s1))"
      using "1.IH" [OF _ call [symmetric]] r "1.prems" by (simp add: less_le)
    then show ?thesis using r call "1.prems"(6) by (simp add: setOne_loop_retry)
  qed
qed

lemma setOne_loop_extends:
  "\<exists>xs. trace (snd (setOne_loop env ctx m creds act tryNo s)) = trace s @ xs"
proof (induction tryNo s rule: setOne_loop_cases [where env = env and ctx = ctx and m = m and creds = creds and act = act])
  case (retry tryNo s err s1)
  then show ?case using clientCall_trace [OF retry(2)] by (auto simp: trace_retryWait)
qed (auto simp: trace_logf trace_retryWait dest: clientCall_trace)




text \<open>Every call of the loop is the call of the action with the credentials given, and
  every sleep is one of \<^verbatim>\<open>RetryWait\<close>.\<close>

lemma client_answer_client_io [simp]: "client_answer (client_io act creds res) = res"
  by (simp add: client_io_def)



lemma setOne_loop_first_call:
  assumes "tryNo \<le> tries m"
  shows "\<exists>res xs. trace (snd (setOne_loop env ctx m creds act tryNo s)) = trace s @ client_io act creds res # xs"
proof -
  obtain res s1 where call: "clientCall env act creds s = (res, s1)" by force
  note t1 = clientCall_trace [OF call]
  consider (ok) "res = None"
    | (l) err where "tryNo = tries m" "res = Some err"
    | (c) err where "tryNo < tries m" "res = Some err" "ctx_Done ctx (clock s1)"
    | (cs) err where "tryNo < tries m" "res = Some err" "\<not> ctx_Done ctx (clock s1)"
         "ctx_Done ctx (clock (retryWait m creds act tryNo err s1))"
    | (r) err where "tryNo < tries m" "res = Some err" "\<not> ctx_Done ctx (clock s1)"
         "\<not> ctx_Done ctx (clock (retryWait m creds act tryNo err s1))"
    using assms by (cases res) (auto simp: less_le)
  then show ?thesis
  proof cases
    case ok then show ?thesis using call t1 assms by (auto simp: setOne_loop_ok)
  next
    case l then show ?thesis using call t1 by (auto simp: setOne_loop_last)
  next
    case c then show ?thesis using call t1 by (auto simp: setOne_loop_cancelled trace_logf)
  next
    case cs then show ?thesis using call t1
      by (auto simp: setOne_loop_cancelled_in_sleep trace_logf trace_retryWait)
  next
    case r
    obtain xs where "trace (snd (setOne_loop env ctx m creds act (tryNo + 1) (retryWait m creds act tryNo err s1)))
        = trace (retryWait m creds act tryNo err s1) @ xs"
      using setOne_loop_extends by blast
    then show ?thesis using r call t1 by (auto simp: setOne_loop_retry trace_retryWait)
  qed
qed


lemmas db_simps = mock_client_def failing_client_def background_def cancelled_at_def creds_user_def
  retry2_def fresh_instance_def setter_def NewPasswordSetter_def fake_db_error_def sys0_def



lemma ctx_Done_mono: "ctx_Done ctx t \<Longrightarrow> t \<le> t' \<Longrightarrow> ctx_Done ctx t'"
  by (auto simp: ctx_Done_def split: option.splits)

text \<open>
  C7. Cancellation between two tries. Let a try of \<^verbatim>\<open>setOne\<close> fail with \<open>err\<close> while
  tries remain, and let \<open>s1\<close> be the state when the client returns. If the context is done
  by then, \<^verbatim>\<open>setOne\<close> returns \<open>err\<close>, the error of the operation, without a sleep and
  without another call. If the context is not done then but is done when the sleep of
  \<^verbatim>\<open>RetryWait\<close> ends, \<^verbatim>\<open>setOne\<close> returns the error of the context, after this one sleep
  and without another call. Otherwise the loop goes on with the next try: after the log line
  and the sleep, the client is called again.
\<close>

theorem setOne_cancellation:
  assumes remaining: "tryNo < tries m"
      and failed: "clientCall env act creds s = (Some err, s1)"
  shows "(ctx_Done ctx (clock s1) \<longrightarrow>
            fst (setOne_loop env ctx m creds act tryNo s) = Some err \<and>
            filter is_sleep (new_io s (snd (setOne_loop env ctx m creds act tryNo s))) = [] \<and>
            filter is_client (new_io s (snd (setOne_loop env ctx m creds act tryNo s))) =
              [client_io act creds (Some err)]) \<and>
         (\<not> ctx_Done ctx (clock s1) \<and> ctx_Done ctx (clock s1 + max 0 (RetryWait (cfg m))) \<longrightarrow>
            fst (setOne_loop env ctx m creds act tryNo s) = Some (ctx_err ctx) \<and>
            filter is_sleep (new_io s (snd (setOne_loop env ctx m creds act tryNo s))) =
              [Sleep (RetryWait (cfg m))] \<and>
            filter is_client (new_io s (snd (setOne_loop env ctx m creds act tryNo s))) =
              [client_io act creds (Some err)]) \<and>
         (\<not> ctx_Done ctx (clock s1 + max 0 (RetryWait (cfg m))) \<longrightarrow>
            setOne_loop env ctx m creds act tryNo s =
              setOne_loop env ctx m creds act (tryNo + 1) (retryWait m creds act tryNo err s1) \<and>
            (\<exists>res xs. new_io s (snd (setOne_loop env ctx m creds act tryNo s)) =
               [client_io act creds (Some err),
                Log ''%s: error %s password try %d of %d, retry in %s: %s''
                  [AStr (Hostname (Current creds)), AStr (action_string act),
                   AInt (uint tryNo), AInt (uint (tries m)), AInt (RetryWait (cfg m)), AErr err],
                Sleep (RetryWait (cfg m)),
                client_io act creds res] @ xs))"
proof (intro conjI impI)
  note t1 = clientCall_trace [OF failed]
  {
    assume d: "ctx_Done ctx (clock s1)"
    have eq: "setOne_loop env ctx m creds act tryNo s =
         (Some err,
          logf ''%s: context cancelled after %s password, not retrying (%d tries remained)''
            [AStr (Hostname (Current creds)), AStr (action_string act),
             AInt (uint (tries m - tryNo))] s1)"
      using setOne_loop_cancelled [OF remaining failed d] .
    show "fst (setOne_loop env ctx m creds act tryNo s) = Some err"
      by (simp add: eq)
    show "filter is_sleep (new_io s (snd (setOne_loop env ctx m creds act tryNo s))) = []"
      by (simp add: eq new_io_def trace_logf t1)
    show "filter is_client (new_io s (snd (setOne_loop env ctx m creds act tryNo s))) =
              [client_io act creds (Some err)]"
      by (simp add: eq new_io_def trace_logf t1)
  }
  {
    assume d: "\<not> ctx_Done ctx (clock s1) \<and> ctx_Done ctx (clock s1 + max 0 (RetryWait (cfg m)))"
    have eq: "setOne_loop env ctx m creds act tryNo s =
         (Some (ctx_err ctx),
          logf ''%s: context cancelled after %s password retry wait, not retrying (%d tries remained)''
            [AStr (Hostname (Current creds)), AStr (action_string act),
             AInt (uint (tries m - tryNo))] (retryWait m creds act tryNo err s1))"
      using setOne_loop_cancelled_in_sleep [OF remaining failed] d by (simp add: clock_retryWait)
    show "fst (setOne_loop env ctx m creds act tryNo s) = Some (ctx_err ctx)"
      by (simp add: eq)
    show "filter is_sleep (new_io s (snd (setOne_loop env ctx m creds act tryNo s))) =
              [Sleep (RetryWait (cfg m))]"
      by (simp add: eq new_io_def trace_logf trace_retryWait t1)
    show "filter is_client (new_io s (snd (setOne_loop env ctx m creds act tryNo s))) =
              [client_io act creds (Some err)]"
      by (simp add: eq new_io_def trace_logf trace_retryWait t1)
  }
  {
    assume d: "\<not> ctx_Done ctx (clock s1 + max 0 (RetryWait (cfg m)))"
    then have d1: "\<not> ctx_Done ctx (clock s1)"
      using ctx_Done_mono [of ctx "clock s1" "clock s1 + max 0 (RetryWait (cfg m))"] by auto
    show eq: "setOne_loop env ctx m creds act tryNo s =
              setOne_loop env ctx m creds act (tryNo + 1) (retryWait m creds act tryNo err s1)"
      using setOne_loop_retry [OF remaining failed d1] d by (simp add: clock_retryWait)
    have "tryNo + 1 \<le> tries m"
      using remaining by unat_arith
    from setOne_loop_first_call [OF this, of env ctx creds act "retryWait m creds act tryNo err s1"]
    obtain res xs where "trace (snd (setOne_loop env ctx m creds act (tryNo + 1) (retryWait m creds act tryNo err s1)))
        = trace (retryWait m creds act tryNo err s1) @ client_io act creds res # xs"
      by blast
    then show "\<exists>res xs. new_io s (snd (setOne_loop env ctx m creds act tryNo s)) =
               [client_io act creds (Some err),
                Log ''%s: error %s password try %d of %d, retry in %s: %s''
                  [AStr (Hostname (Current creds)), AStr (action_string act),
                   AInt (uint tryNo), AInt (uint (tries m)), AInt (RetryWait (cfg m)), AErr err],
                Sleep (RetryWait (cfg m)),
                client_io act creds res] @ xs"
      by (auto simp: eq new_io_def trace_retryWait t1)
  }
qed

theorem setOne_cancellation_witness:
  "fst (setOne failing_client (cancelled_at 0) (setter retry2 [''addr:3306'']) creds_user set_password sys0)
     = Some fake_db_error \<and>
   fst (setOne failing_client (cancelled_at 2000000) (setter retry2 [''addr:3306'']) creds_user set_password sys0)
     = Some (ErrOther ''context canceled'') \<and>
   setOne failing_client background (setter retry2 [''addr:3306'']) creds_user set_password sys0 =
     setOne_loop failing_client background (setter retry2 [''addr:3306'']) creds_user set_password 2
       (retryWait (setter retry2 [''addr:3306'']) creds_user set_password 1 fake_db_error
          \<lparr>world = 1, clock = 1000000, trace = [Client_SetPassword creds_user (Some fake_db_error)]\<rparr>)"
proof -
  have r: "(1 :: 64 word) < tries (setter retry2 [''addr:3306''])"
    by (simp add: db_simps)
  have f: "clientCall failing_client set_password creds_user sys0 =
      (Some fake_db_error,
       \<lparr>world = 1, clock = 1000000, trace = [Client_SetPassword creds_user (Some fake_db_error)]\<rparr>)"
    by (simp add: clientCall_def ext_def failing_client_def sys0_def)
  have w: "RetryWait (cfg (setter retry2 [''addr:3306''])) = 250000000"
    by (simp add: db_simps Let_def)
  show ?thesis
    using setOne_cancellation [OF r f, of "cancelled_at 0"]
      setOne_cancellation [OF r f, of "cancelled_at 2000000"]
      setOne_cancellation [OF r f, of background]
    by (simp add: setOne_def w ctx_Done_def cancelled_at_def background_def)
qed

subsection \<open>setAll and the passes\<close>












text \<open>What the pass does for the targets whose \<^verbatim>\<open>set\<close> flag is true, when it is not
  cancelled.\<close>

lemma rb_served_mono:
  "rb_served m sw d xs d' \<Longrightarrow> set xs \<subseteq> set ys \<Longrightarrow> rb_served m sw d ys d'"
  unfolding rb_served_def by blast


lemma rb_served_append1: "rb_served m sw d xs d' \<Longrightarrow> rb_served m sw d (xs @ ys) d'"
  by (erule rb_served_mono) auto


lemma worker_nth:
  "j \<noteq> i \<Longrightarrow> fst (worker env ctx m creds act i ds s) ! j = ds ! j"
  by (simp add: worker_def split: prod.splits option.splits)

lemma worker_length:
  "length (fst (worker env ctx m creds act i ds s)) = length ds"
  by (simp add: worker_def split: prod.splits option.splits)











lemmas pass_simps = SetPassword_def Rollback_def VerifyPassword_def setAll_def worker_def setOne_def
  setOne_loop.simps clientCall_def ext_def logf_def emit_def deferred_return_def select_cancelled_def
  ctx_Done_def resetInstance_def errCount_def stamp_def swapCreds_def Let_def new_io_def waiting_def
  host_fails_def no_retry_def db_simps

lemma set_pass3_value:
  "fst (fst set_pass3) = Some (ErrFailedOn set_password 1) \<and>
   map set' (dbs (snd (fst set_pass3))) = [True, False, True] \<and>
   map hostname (dbs (snd (fst set_pass3))) = [''a:3306'', ''b:3306'', ''c:3306''] \<and>
   map rolledBack (dbs (snd (fst set_pass3))) = [False, False, False] \<and>
   length (trace (snd set_pass3)) = 10"
  by (simp add: set_pass3_def pass_simps)


subsection \<open>The outcome slots\<close>

lemma slots_kept_refl: "slots_kept act ds ds"
  by (simp add: slots_kept_def)

lemma slots_kept_trans: "slots_kept act ds ds1 \<Longrightarrow> slots_kept act ds1 ds2 \<Longrightarrow> slots_kept act ds ds2"
  by (simp add: slots_kept_def)

lemma nth_update_self:
  "j < length ds \<Longrightarrow> ds[i := f (ds ! i)] ! j = (if i = j then f (ds ! j) else ds ! j)"
  by (cases "i < length ds") (auto simp: nth_list_update)

lemma slots_kept_record_error: "slots_kept act ds (ds[i := record_error act err (ds ! i)])"
  by (cases act) (simp_all add: slots_kept_def nth_update_self)

lemma slots_kept_record_success: "slots_kept act ds (ds[i := record_success act (ds ! i)])"
  by (cases act) (simp_all add: slots_kept_def nth_update_self)

lemma worker_kept: "slots_kept act ds (fst (worker env ctx m creds act i ds s))"
  by (simp add: worker_def slots_kept_record_error slots_kept_record_success
      split: prod.splits option.splits)

lemma setAll_loop_kept: "slots_kept act ds (fst (snd (setAll_loop env ctx m creds act idx ds s)))"
proof (induction idx arbitrary: ds s)
  case Nil
  show ?case by (simp add: slots_kept_refl)
next
  case (Cons i rest)
  obtain ds1 s1 where w: "worker env ctx m creds act i ds s = (ds1, s1)" by force
  obtain ds2 s2 where w2: "worker env ctx m creds act i ds (waiting act ds s) = (ds2, s2)" by force
  have k1: "slots_kept act ds ds1"
    using worker_kept [of act ds env ctx m creds i s] w by simp
  have k2: "slots_kept act ds ds2"
    using worker_kept [of act ds env ctx m creds i "waiting act ds s"] w2 by simp
  show ?case
    using Cons.IH [of ds] slots_kept_trans [OF k1 Cons.IH [of ds1 s1]] w w2 k2
    by (auto simp: slots_kept_refl)
qed

lemma setAll_kept: "slots_kept act (dbs m) (dbs (snd (fst (setAll env ctx m creds act s))))"
proof -
  let ?s0 = "logf ''%s password on %d RDS instances, %d in parallel...''
                 [AStr (action_string act), AInt (int (length (dbs m))), AInt (uint (Parallel (cfg m)))] s"
  obtain c ds s1 where l: "setAll_loop env ctx m creds act [0..<length (dbs m)] (dbs m) ?s0 = (c, ds, s1)"
    by (metis prod_cases3)
  have "slots_kept act (dbs m) ds"
    using setAll_loop_kept [of act "dbs m" env ctx m creds "[0..<length (dbs m)]" ?s0] l by simp
  then show ?thesis
    using l by (cases c) (simp_all add: setAll_def Let_def)
qed

lemma map_resetInstance_hostname:
  "map resetInstance ds =
     map (\<lambda>h. \<lparr>hostname = h, set' = False, verified = False, rolledBack = False,
                setError = None, verifyError = None, rollbackError = None\<rparr>) (map hostname ds)"
  by (simp add: resetInstance_def o_def)

lemma map_resetInstance:
  "map hostname ds0 = map hostname ds \<Longrightarrow> map resetInstance ds0 = map resetInstance ds"
  by (simp only: map_resetInstance_hostname)

text \<open>
  What the Set pass resets. A Set pass starts by resetting every slot: its result is the same
  whatever flags and errors the targets carry from earlier passes (only their hostnames
  count), and after it no target is marked verified or rolled back or carries an error of a
  verification or of a rollback. A Verify pass and a Rollback pass keep the \<^verbatim>\<open>set\<close> flag
  and the error of the most recent Set pass, which \<^verbatim>\<open>Rollback\<close> reads.
\<close>

lemma SetPassword_resets_slots:
  "(map hostname ds0 = map hostname (dbs m) \<longrightarrow>
      SetPassword env ctx (m\<lparr>dbs := ds0\<rparr>) creds s = SetPassword env ctx m creds s) \<and>
   (\<forall>d \<in> set (dbs (snd (fst (SetPassword env ctx m creds s)))).
      \<not> verified d \<and> \<not> rolledBack d \<and> verifyError d = None \<and> rollbackError d = None) \<and>
   (\<forall>j<length (dbs m).
      set' (dbs (snd (fst (VerifyPassword env ctx m creds s))) ! j) = set' (dbs m ! j) \<and>
      setError (dbs (snd (fst (VerifyPassword env ctx m creds s))) ! j) = setError (dbs m ! j) \<and>
      set' (dbs (snd (fst (Rollback env ctx m creds s))) ! j) = set' (dbs m ! j) \<and>
      setError (dbs (snd (fst (Rollback env ctx m creds s))) ! j) = setError (dbs m ! j))"
proof -
  have a: "SetPassword env ctx (m\<lparr>dbs := ds0\<rparr>) creds s = SetPassword env ctx m creds s"
    if "map hostname ds0 = map hostname (dbs m)"
  proof -
    have "map resetInstance ds0 = map resetInstance (dbs m)"
      using that by (rule map_resetInstance)
    then show ?thesis by (simp add: SetPassword_def)
  qed
  have b: "\<not> verified d \<and> \<not> rolledBack d \<and> verifyError d = None \<and> rollbackError d = None"
    if d: "d \<in> set (dbs (snd (fst (SetPassword env ctx m creds s))))" for d
  proof -
    let ?m0 = "m\<lparr>dbs := map resetInstance (dbs m)\<rparr>"
    let ?r = "setAll env ctx ?m0 creds set_password (logf ''SetPassword call'' [] s)"
    have eq: "dbs (snd (fst (SetPassword env ctx m creds s))) = dbs (snd (fst ?r))"
      by (simp add: SetPassword_def deferred_return_def split: prod.splits)
    have k: "slots_kept set_password (map resetInstance (dbs m)) (dbs (snd (fst ?r)))"
      using setAll_kept [of set_password ?m0 env ctx creds] by simp
    from d eq obtain j where j: "j < length (dbs (snd (fst ?r)))" "d = dbs (snd (fst ?r)) ! j"
      by (metis in_set_conv_nth)
    then have "j < length (dbs m)" using k by (simp add: slots_kept_def)
    then show ?thesis
      using k j by (simp add: slots_kept_def resetInstance_def)
  qed
  have c: "set' (dbs (snd (fst (VerifyPassword env ctx m creds s))) ! j) = set' (dbs m ! j) \<and>
      setError (dbs (snd (fst (VerifyPassword env ctx m creds s))) ! j) = setError (dbs m ! j) \<and>
      set' (dbs (snd (fst (Rollback env ctx m creds s))) ! j) = set' (dbs m ! j) \<and>
      setError (dbs (snd (fst (Rollback env ctx m creds s))) ! j) = setError (dbs m ! j)"
    if j: "j < length (dbs m)" for j
  proof -
    have v: "dbs (snd (fst (VerifyPassword env ctx m creds s))) =
        dbs (snd (fst (setAll env ctx m creds verify_password (logf ''VerifyPassword call'' [] s))))"
      by (simp add: VerifyPassword_def deferred_return_def split: prod.splits)
    have r: "dbs (snd (fst (Rollback env ctx m creds s))) =
        dbs (snd (fst (setAll env ctx m (swapCreds creds) rollback_password (logf ''Rollback call'' [] s))))"
      by (simp add: Rollback_def deferred_return_def split: prod.splits)
    show ?thesis
      using setAll_kept [of verify_password m env ctx creds "logf ''VerifyPassword call'' [] s"]
        setAll_kept [of rollback_password m env ctx "swapCreds creds" "logf ''Rollback call'' [] s"] j
      by (simp add: v r slots_kept_def)
  qed
  show ?thesis
    using a b c by blast
qed

text \<open>An error in the slot of the action is still there after a pass of that action:
  a goroutine that fails writes an error, and one that succeeds writes the flag only.\<close>

lemma worker_error_stays:
  assumes "j < length ds" and "slot_error act (ds ! j) \<noteq> None"
  shows "slot_error act (fst (worker env ctx m creds act i ds s) ! j) \<noteq> None"
proof (cases "i = j")
  case True
  show ?thesis
    using assms unfolding True
    by (cases act) (simp_all add: worker_def split: prod.splits option.splits)
next
  case False
  then have "fst (worker env ctx m creds act i ds s) ! j = ds ! j"
    by (simp add: worker_nth)
  then show ?thesis using assms by simp
qed

lemma setAll_loop_error_stays:
  assumes "j < length ds" and "slot_error act (ds ! j) \<noteq> None"
  shows "slot_error act (fst (snd (setAll_loop env ctx m creds act idx ds s)) ! j) \<noteq> None"
  using assms
proof (induction idx arbitrary: ds s)
  case Nil
  then show ?case by simp
next
  case (Cons i rest)
  obtain ds1 s1 where w: "worker env ctx m creds act i ds s = (ds1, s1)" by force
  obtain ds2 s2 where w2: "worker env ctx m creds act i ds (waiting act ds s) = (ds2, s2)" by force
  have e1: "j < length ds1" "slot_error act (ds1 ! j) \<noteq> None"
    using worker_error_stays [OF Cons.prems, of env ctx m creds i s]
      worker_length [of env ctx m creds act i ds s] w Cons.prems(1) by simp_all
  have e2: "slot_error act (ds2 ! j) \<noteq> None"
    using worker_error_stays [OF Cons.prems, of env ctx m creds i "waiting act ds s"] w2 by simp
  show ?case
    using Cons.IH [OF Cons.prems] Cons.IH [OF e1] w w2 e2 Cons.prems
    by auto
qed

lemma setAll_error_stays:
  assumes j: "j < length (dbs m)" and e: "slot_error act (dbs m ! j) \<noteq> None"
  shows "fst (fst (setAll env ctx m creds act s)) \<noteq> None \<and>
         slot_error act (dbs (snd (fst (setAll env ctx m creds act s))) ! j) \<noteq> None"
proof -
  let ?s0 = "logf ''%s password on %d RDS instances, %d in parallel...''
                 [AStr (action_string act), AInt (int (length (dbs m))), AInt (uint (Parallel (cfg m)))] s"
  obtain c ds s1 where l: "setAll_loop env ctx m creds act [0..<length (dbs m)] (dbs m) ?s0 = (c, ds, s1)"
    by (metis prod_cases3)
  have st: "slot_error act (ds ! j) \<noteq> None"
    using setAll_loop_error_stays [OF j e, of env ctx m creds "[0..<length (dbs m)]" ?s0] l by simp
  have "length ds = length (dbs m)"
    using setAll_loop_kept [of act "dbs m" env ctx m creds "[0..<length (dbs m)]" ?s0] l
    by (simp add: slots_kept_def)
  then have "ds ! j \<in> set ds" using j by simp
  then have "filter (\<lambda>d. slot_error act d \<noteq> None) ds \<noteq> []"
    using st by (auto simp: filter_empty_conv)
  then have "0 < errCount act ds"
    by (simp add: errCount_def)
  then show ?thesis
    using l st by (cases c) (simp_all add: setAll_def Let_def)
qed

text \<open>
  C4. The outcome slots are not reset at the start of a Verify pass or of a Rollback pass:
  only \<^verbatim>\<open>SetPassword\<close> resets them. So a result of an earlier pass is taken for a result
  of the current one: when a target carries an error of a verification, recorded by an
  earlier Verify pass, \<^verbatim>\<open>VerifyPassword\<close> returns an error whatever the database client
  answers in this pass, and the target carries an error of a verification afterwards too;
  and likewise for \<^verbatim>\<open>Rollback\<close> and an error of a rollback. This is the false positive
  that the comment in \<^verbatim>\<open>SetPassword\<close> says the reset is there to prevent, and it is
  against the comment of \<^verbatim>\<open>setAll\<close>, by which a run in which all databases are verified
  without error is a successful one.
\<close>

theorem VerifyPassword_stale_error:
  "(j < length (dbs m) \<and> verifyError (dbs m ! j) \<noteq> None \<longrightarrow>
      fst (fst (VerifyPassword env ctx m creds s)) \<noteq> None \<and>
      verifyError (dbs (snd (fst (VerifyPassword env ctx m creds s))) ! j) \<noteq> None) \<and>
   (j < length (dbs m) \<and> rollbackError (dbs m ! j) \<noteq> None \<longrightarrow>
      fst (fst (Rollback env ctx m creds s)) \<noteq> None \<and>
      rollbackError (dbs (snd (fst (Rollback env ctx m creds s))) ! j) \<noteq> None)"
proof -
  have v: "fst (fst (VerifyPassword env ctx m creds s)) =
        fst (fst (setAll env ctx m creds verify_password (logf ''VerifyPassword call'' [] s)))"
      "dbs (snd (fst (VerifyPassword env ctx m creds s))) =
        dbs (snd (fst (setAll env ctx m creds verify_password (logf ''VerifyPassword call'' [] s))))"
    by (simp_all add: VerifyPassword_def deferred_return_def split: prod.splits)
  have r: "fst (fst (Rollback env ctx m creds s)) =
        fst (fst (setAll env ctx m (swapCreds creds) rollback_password (logf ''Rollback call'' [] s)))"
      "dbs (snd (fst (Rollback env ctx m creds s))) =
        dbs (snd (fst (setAll env ctx m (swapCreds creds) rollback_password (logf ''Rollback call'' [] s))))"
    by (simp_all add: Rollback_def deferred_return_def split: prod.splits)
  have a: "fst (fst (VerifyPassword env ctx m creds s)) \<noteq> None \<and>
      verifyError (dbs (snd (fst (VerifyPassword env ctx m creds s))) ! j) \<noteq> None"
    if "j < length (dbs m) \<and> verifyError (dbs m ! j) \<noteq> None"
  proof -
    have "slot_error verify_password (dbs m ! j) \<noteq> None" using that by simp
    from setAll_error_stays [OF _ this, of env ctx creds "logf ''VerifyPassword call'' [] s"] that
    show ?thesis unfolding v by simp
  qed
  have b: "fst (fst (Rollback env ctx m creds s)) \<noteq> None \<and>
      rollbackError (dbs (snd (fst (Rollback env ctx m creds s))) ! j) \<noteq> None"
    if "j < length (dbs m) \<and> rollbackError (dbs m ! j) \<noteq> None"
  proof -
    have "slot_error rollback_password (dbs m ! j) \<noteq> None" using that by simp
    from setAll_error_stays [OF _ this, of env ctx "swapCreds creds" "logf ''Rollback call'' [] s"] that
    show ?thesis unfolding r by simp
  qed
  show ?thesis
    using a b by blast
qed

text \<open>Two Verify passes of one password setter over one target, with one try each: the
  call of the first pass fails; the only call of the second pass returns nil, the target is
  marked as verified, and the pass returns "verify failed on 1 database instances".\<close>

theorem VerifyPassword_stale_error_witness:
  "filter is_client (new_io sys0 (snd verify_pass1)) =
     [Client_VerifyPassword creds_user (Some fake_db_error)] \<and>
   fst (fst verify_pass1) = Some (ErrFailedOn verify_password 1) \<and>
   filter is_client (new_io (snd verify_pass1) (snd verify_pass2)) =
     [Client_VerifyPassword creds_user None] \<and>
   fst (fst verify_pass2) = Some (ErrFailedOn verify_password 1) \<and>
   map verified (dbs (snd (fst verify_pass2))) = [True] \<and>
   map verifyError (dbs (snd (fst verify_pass2))) = [Some fake_db_error] \<and>
   verifyError (dbs (snd (fst verify_pass2)) ! 0) \<noteq> None"
proof -
  have p1: "filter is_client (new_io sys0 (snd verify_pass1)) =
     [Client_VerifyPassword creds_user (Some fake_db_error)]"
      "fst (fst verify_pass1) = Some (ErrFailedOn verify_password 1)"
      "0 < length (dbs (snd (fst verify_pass1)))"
      "verifyError (dbs (snd (fst verify_pass1)) ! 0) \<noteq> None"
    by (simp_all add: verify_pass1_def pass_simps)
  have p2: "filter is_client (new_io (snd verify_pass1) (snd verify_pass2)) =
     [Client_VerifyPassword creds_user None]"
      "fst (fst verify_pass2) = Some (ErrFailedOn verify_password 1)"
      "map verified (dbs (snd (fst verify_pass2))) = [True]"
      "map verifyError (dbs (snd (fst verify_pass2))) = [Some fake_db_error]"
    by (simp_all add: verify_pass2_def verify_pass1_def pass_simps)
  from VerifyPassword_stale_error [of 0 "snd (fst verify_pass1)" "mock_client 1" background creds_user
      "snd verify_pass1", folded verify_pass2_def] p1(3,4)
  have "verifyError (dbs (snd (fst verify_pass2)) ! 0) \<noteq> None"
    by blast
  then show ?thesis
    using p1 p2 by simp
qed

subsection \<open>The slots of the parallel semaphore\<close>

lemma fan_step_invariant:
  assumes st: "fan_step n f f'"
      and inv: "finite (running f) \<and> (\<forall>i\<in>running f. i < pos f) \<and>
                slots f + card (running f) + (if held f then 1 else 0) = k"
  shows "finite (running f') \<and> (\<forall>i\<in>running f'. i < pos f') \<and>
         slots f' + card (running f') + (if held f' then 1 else 0) = k"
  using st
proof cases
  case take
  then show ?thesis using inv by auto
next
  case cancel
  then show ?thesis using inv by auto
next
  case skip
  then show ?thesis using inv by (auto simp: less_Suc_eq)
next
  case go
  have "pos f \<notin> running f" using inv by auto
  then show ?thesis using go inv by (auto simp: less_Suc_eq)
next
  case (finish i)
  have "card (running f - {i}) = card (running f) - 1" "0 < card (running f)"
    using finish inv by (auto simp: card_gt_0_iff)
  then show ?thesis using finish inv by auto
next
  case again
  then show ?thesis using inv by auto
qed

lemma fan_reachable_invariant:
  assumes "fan_reachable m f"
  shows "finite (running f) \<and> (\<forall>i\<in>running f. i < pos f) \<and>
         slots f + card (running f) + (if held f then 1 else 0) = maxParallel m"
  using assms
proof (induction rule: fan_reachable.induct)
  case (start m)
  show ?case by (simp add: fan_start_def)
next
  case (step m f f')
  from fan_step_invariant [OF step(2) step(3)] show ?case .
qed

text \<open>
  C9. The cap of a fan-out pass. \<^verbatim>\<open>NewPasswordSetter\<close> fills the channel with
  \<^verbatim>\<open>Parallel\<close> tokens, 1 when the configuration says 0. In every state that the loop of
  \<^verbatim>\<open>setAll\<close> and its goroutines can reach, in any interleaving and over any number of
  passes, the tokens in the channel, the goroutines in flight and the token the loop may hold
  add up to that number; so at most that many goroutines are in flight.
\<close>

theorem at_most_Parallel_in_flight:
  "maxParallel (NewPasswordSetter c) = (if Parallel c = 0 then 1 else unat (Parallel c)) \<and>
   (fan_reachable m f \<longrightarrow>
      card (running f) \<le> maxParallel m \<and>
      slots f + card (running f) + (if held f then 1 else 0) = maxParallel m)"
proof (intro conjI impI)
  show "maxParallel (NewPasswordSetter c) = (if Parallel c = 0 then 1 else unat (Parallel c))"
    by (simp add: NewPasswordSetter_def Let_def)
next
  assume r: "fan_reachable m f"
  from fan_reachable_invariant [OF r]
  show "slots f + card (running f) + (if held f then 1 else 0) = maxParallel m" by simp
  then show "card (running f) \<le> maxParallel m" by simp
qed

theorem at_most_Parallel_in_flight_witness:
  "maxParallel setter2 = 2 \<and>
   fan_reachable setter2 \<lparr>slots = 0, held = False, pos = 2, running = {0, 1}, left = False\<rparr> \<and>
   card {0, 1 :: nat} \<le> maxParallel setter2"
proof -
  have k: "maxParallel setter2 = 2" and n: "length (dbs setter2) = 3"
    by (simp_all add: setter2_def setter_def parallel2_def NewPasswordSetter_def)
  have r0: "fan_reachable setter2 \<lparr>slots = 2, held = False, pos = 0, running = {}, left = False\<rparr>"
    using fan_reachable.start [of setter2] by (simp add: fan_start_def k)
  have "fan_step 3 \<lparr>slots = 2, held = False, pos = 0, running = {}, left = False\<rparr>
      \<lparr>slots = 1, held = True, pos = 0, running = {}, left = False\<rparr>"
    using fan_step.take [of "\<lparr>slots = 2, held = False, pos = 0, running = {}, left = False\<rparr>" 3] by simp
  from fan_reachable.step [OF r0] this n
  have r1: "fan_reachable setter2 \<lparr>slots = 1, held = True, pos = 0, running = {}, left = False\<rparr>"
    by simp
  have "fan_step 3 \<lparr>slots = 1, held = True, pos = 0, running = {}, left = False\<rparr>
      \<lparr>slots = 1, held = False, pos = 1, running = {0}, left = False\<rparr>"
    using fan_step.go [of "\<lparr>slots = 1, held = True, pos = 0, running = {}, left = False\<rparr>" 3] by simp
  from fan_reachable.step [OF r1] this n
  have r2: "fan_reachable setter2 \<lparr>slots = 1, held = False, pos = 1, running = {0}, left = False\<rparr>"
    by simp
  have "fan_step 3 \<lparr>slots = 1, held = False, pos = 1, running = {0}, left = False\<rparr>
      \<lparr>slots = 0, held = True, pos = 1, running = {0}, left = False\<rparr>"
    using fan_step.take [of "\<lparr>slots = 1, held = False, pos = 1, running = {0}, left = False\<rparr>" 3] by simp
  from fan_reachable.step [OF r2] this n
  have r3: "fan_reachable setter2 \<lparr>slots = 0, held = True, pos = 1, running = {0}, left = False\<rparr>"
    by simp
  have "fan_step 3 \<lparr>slots = 0, held = True, pos = 1, running = {0}, left = False\<rparr>
      \<lparr>slots = 0, held = False, pos = 2, running = {0, 1}, left = False\<rparr>"
    using fan_step.go [of "\<lparr>slots = 0, held = True, pos = 1, running = {0}, left = False\<rparr>" 3]
    by (simp add: insert_commute numeral_2_eq_2)
  from fan_reachable.step [OF r3] this n
  have r4: "fan_reachable setter2 \<lparr>slots = 0, held = False, pos = 2, running = {0, 1}, left = False\<rparr>"
    by simp
  from at_most_Parallel_in_flight [of parallel2 setter2
      "\<lparr>slots = 0, held = False, pos = 2, running = {0, 1}, left = False\<rparr>"] r4 k
  show ?thesis by simp
qed

subsection \<open>finishSecret\<close>

declare pollReplication.simps [simp del]

lemma steps_append [simp]: "steps (xs @ ys) = steps xs @ steps ys"
  by (simp add: steps_def)

lemma steps_Nil [simp]: "steps [] = []"
  by (simp add: steps_def)

lemma steps_Log [simp]: "steps (Log f as # xs) = steps xs"
  by (simp add: steps_def)

lemma steps_Receive [simp]: "steps (Receive e # xs) = steps xs"
  by (simp add: steps_def)

lemma steps_Sleep [simp]: "steps (Sleep d # xs) = Sleep d # steps xs"
  by (simp add: steps_def)

lemma steps_SM [simp]:
  "steps (SM_GetSecretValue sid stage g # xs) = SM_GetSecretValue sid stage g # steps xs"
  "steps (SM_UpdateSecretVersionStage input u # xs) = SM_UpdateSecretVersionStage input u # steps xs"
  "steps (SM_DescribeSecret sid d # xs) = SM_DescribeSecret sid d # steps xs"
  by (simp_all add: steps_def)

lemma polls_Nil [simp]: "polls sid [] = []"
  by (simp add: polls_def)

lemma polls_Cons [simp]: "polls sid (a # as) = SM_DescribeSecret sid a # Sleep pollInterval # polls sid as"
  by (simp add: polls_def)


















end
